theory Spec2Isabelle
  imports Main
begin

section \<open>Python values shared by the modules\<close>

text \<open>
  The program stores everything as JSON: the checkpoint file is one JSON object, the
  publication file one JSON array of objects. A Python \<open>dict\<close> with string keys is an
  association list (insertion order kept, keys unique), a Python \<open>str\<close> is a
  \<open>string\<close> in which one character stands for one code point.
\<close>

datatype json =
    JNull
  | JBool bool
  | JInt int
  | JStr string
  | JList "json list"
  | JDict "(string \<times> json) list"

text \<open>The exceptions that the modelled code can raise.\<close>

datatype error =
    AttributeError
  | TypeError
  | KeyError
  | OSError
  | ConnectionError

text \<open>Truth value of a Python object, as \<open>if x:\<close> reads it.\<close>

fun truthy :: "json \<Rightarrow> bool" where
  "truthy JNull = False"
| "truthy (JBool b) = b"
| "truthy (JInt i) = (i \<noteq> 0)"
| "truthy (JStr s) = (s \<noteq> [])"
| "truthy (JList xs) = (xs \<noteq> [])"
| "truthy (JDict kvs) = (kvs \<noteq> [])"

text \<open>\<open>d.get(k)\<close> and \<open>d[k] = v\<close> on a dict.\<close>

definition dict_get :: "(string \<times> json) list \<Rightarrow> string \<Rightarrow> json option" where
  "dict_get d k = map_of d k"

fun dict_set :: "(string \<times> json) list \<Rightarrow> string \<Rightarrow> json \<Rightarrow> (string \<times> json) list" where
  "dict_set [] k v = [(k, v)]"
| "dict_set ((k', v') # d) k v = (if k' = k then (k, v) # d else (k', v') # dict_set d k v)"

subsection \<open>Decimal digits\<close>

definition digit_char :: "nat \<Rightarrow> char" where
  "digit_char d = char_of (48 + d)"

definition is_digit :: "char \<Rightarrow> bool" where
  "is_digit c = (48 \<le> (of_char c :: nat) \<and> (of_char c :: nat) \<le> 57)"

definition digit_val :: "char \<Rightarrow> nat" where
  "digit_val c = of_char c - 48"

text \<open>\<open>"%0wd" % n\<close> for a number of at most \<open>w\<close> digits.\<close>

fun pad :: "nat \<Rightarrow> nat \<Rightarrow> string" where
  "pad 0 n = []"
| "pad (Suc w) n = pad w (n div 10) @ [digit_char (n mod 10)]"

text \<open>Reading a non-empty run of decimal digits; anything else is no number.\<close>

definition num_of :: "string \<Rightarrow> nat option" where
  "num_of s =
     (if s \<noteq> [] \<and> list_all is_digit s
      then Some (foldl (\<lambda>a c. 10 * a + digit_val c) 0 s)
      else None)"

text \<open>\<open>str(n)\<close> for an integer.\<close>

fun str_nat :: "nat \<Rightarrow> string" where
  "str_nat n = (if n < 10 then [digit_char n] else str_nat (n div 10) @ [digit_char (n mod 10)])"

declare str_nat.simps [simp del]

definition str_int :: "int \<Rightarrow> string" where
  "str_int i = (if i < 0 then CHR ''-'' # str_nat (nat (- i)) else str_nat (nat i))"

section \<open>datetime\<close>

text \<open>
  A \<open>datetime\<close> object: its calendar fields and its \<open>tzinfo\<close>, which is absent for a naive
  value and otherwise a fixed offset from UTC, kept in microseconds (a \<open>timedelta\<close>
  strictly between minus and plus one day).
\<close>

record datetime =
  year :: nat
  month :: nat
  day :: nat
  hour :: nat
  minute :: nat
  second :: nat
  microsecond :: nat
  tzinfo :: "int option"

definition is_leap :: "nat \<Rightarrow> bool" where
  "is_leap y = (y mod 4 = 0 \<and> (y mod 100 \<noteq> 0 \<or> y mod 400 = 0))"

definition days_in_month :: "nat \<Rightarrow> nat \<Rightarrow> nat" where
  "days_in_month y m =
     (if m = 2 then (if is_leap y then 29 else 28)
      else if m = 4 \<or> m = 6 \<or> m = 9 \<or> m = 11 then 30 else 31)"

definition day_micros :: int where
  "day_micros = 86400000000"

definition valid_offset :: "int option \<Rightarrow> bool" where
  "valid_offset tz = (case tz of None \<Rightarrow> True | Some off \<Rightarrow> - day_micros < off \<and> off < day_micros)"

text \<open>The values the \<open>datetime\<close> constructor accepts.\<close>

definition valid_datetime :: "datetime \<Rightarrow> bool" where
  "valid_datetime dt =
     (1 \<le> year dt \<and> year dt \<le> 9999 \<and> 1 \<le> month dt \<and> month dt \<le> 12 \<and>
      1 \<le> day dt \<and> day dt \<le> days_in_month (year dt) (month dt) \<and>
      hour dt < 24 \<and> minute dt < 60 \<and> second dt < 60 \<and> microsecond dt < 1000000 \<and>
      valid_offset (tzinfo dt))"

definition is_aware :: "datetime \<Rightarrow> bool" where
  "is_aware dt = (tzinfo dt \<noteq> None)"

text \<open>\<open>dt.replace(tzinfo=timezone.utc)\<close>.\<close>

definition replace_tzinfo_utc :: "datetime \<Rightarrow> datetime" where
  "replace_tzinfo_utc dt = dt\<lparr>tzinfo := Some 0\<rparr>"

subsection \<open>Ordering\<close>

text \<open>
  The proleptic Gregorian ordinal of a date, and the instant of a datetime in
  microseconds: the local reading minus the offset. Python orders two aware datetimes by
  their instants, two naive ones by their fields, and refuses to order a naive against an
  aware one.
\<close>

definition days_before_year :: "nat \<Rightarrow> nat" where
  "days_before_year y = (y - 1) * 365 + (y - 1) div 4 - (y - 1) div 100 + (y - 1) div 400"

definition days_before_month :: "nat \<Rightarrow> nat \<Rightarrow> nat" where
  "days_before_month y m =
     (if m \<le> 1 then 0 else if m = 2 then 31
      else (if is_leap y then 1 else 0) +
           (if m = 3 then 59 else if m = 4 then 90 else if m = 5 then 120
            else if m = 6 then 151 else if m = 7 then 181 else if m = 8 then 212
            else if m = 9 then 243 else if m = 10 then 273 else if m = 11 then 304
            else 334))"

definition ymd2ord :: "nat \<Rightarrow> nat \<Rightarrow> nat \<Rightarrow> nat" where
  "ymd2ord y m d = days_before_year y + days_before_month y m + d"

definition local_micros :: "datetime \<Rightarrow> int" where
  "local_micros dt =
     (((int (ymd2ord (year dt) (month dt) (day dt)) * 24 + int (hour dt)) * 60
        + int (minute dt)) * 60 + int (second dt)) * 1000000 + int (microsecond dt)"

definition utc_micros :: "datetime \<Rightarrow> int" where
  "utc_micros dt = local_micros dt - (case tzinfo dt of None \<Rightarrow> 0 | Some off \<Rightarrow> off)"

definition datetime_gt :: "datetime \<Rightarrow> datetime \<Rightarrow> error + bool" where
  "datetime_gt a b =
     (if is_aware a \<noteq> is_aware b then Inl TypeError
      else Inr (utc_micros a > utc_micros b))"

subsection \<open>isoformat and fromisoformat\<close>

definition format_offset :: "int option \<Rightarrow> string" where
  "format_offset tz =
     (case tz of
        None \<Rightarrow> []
      | Some off \<Rightarrow>
          (let a = nat \<bar>off\<bar>;
               hh = a div 3600000000;
               mm = (a mod 3600000000) div 60000000;
               ss = (a mod 3600000000) mod 60000000
           in (if off < 0 then ''-'' else ''+'') @ pad 2 hh @ '':'' @ pad 2 mm @
              (if ss \<noteq> 0
               then '':'' @ pad 2 (ss div 1000000) @
                    (if ss mod 1000000 \<noteq> 0 then ''.'' @ pad 6 (ss mod 1000000) else [])
               else [])))"

definition isoformat :: "datetime \<Rightarrow> string" where
  "isoformat dt =
     pad 4 (year dt) @ ''-'' @ pad 2 (month dt) @ ''-'' @ pad 2 (day dt) @ ''T'' @
     pad 2 (hour dt) @ '':'' @ pad 2 (minute dt) @ '':'' @ pad 2 (second dt) @
     (if microsecond dt \<noteq> 0 then ''.'' @ pad 6 (microsecond dt) else []) @
     format_offset (tzinfo dt)"

text \<open>
  \<open>fromisoformat\<close> reads the shape that \<open>isoformat\<close> writes:
  \<open>YYYY-MM-DD\<close>, one separator character, \<open>HH:MM:SS\<close>, an optional six-digit fraction and an
  optional offset \<open>+HH:MM[:SS[.ffffff]]\<close>. \<open>None\<close> stands for \<open>ValueError\<close>. Python
  also accepts abbreviated shapes (a date alone, \<open>HH:MM\<close>, a three-digit fraction and,
  from 3.11 on, further ISO 8601 forms such as a \<open>Z\<close> suffix), which this function
  refuses. The theorems below use it on the strings that \<open>isoformat\<close> writes, where
  it agrees with every version, and on \<open>"yesterday"\<close>, which every version
  refuses.
\<close>

definition parse_fraction :: "string \<Rightarrow> (nat \<times> string) option" where
  "parse_fraction s =
     (case s of
        [] \<Rightarrow> Some (0, [])
      | c # r \<Rightarrow>
          if c = CHR ''.''
          then (case num_of (take 6 r) of
                  None \<Rightarrow> None
                | Some us \<Rightarrow> if length r < 6 then None else Some (us, drop 6 r))
          else Some (0, s))"

definition parse_offset_seconds :: "string \<Rightarrow> (nat \<times> nat) option" where
  "parse_offset_seconds rest =
     (if rest = [] then Some (0, 0)
      else if hd rest = CHR '':'' \<and> length rest \<ge> 3
      then (case (num_of (take 2 (tl rest)), parse_fraction (drop 3 rest)) of
              (Some ss, Some (us, [])) \<Rightarrow> Some (ss, us)
            | _ \<Rightarrow> None)
      else None)"

definition parse_offset :: "string \<Rightarrow> int option option" where
  "parse_offset s =
     (case s of
        [] \<Rightarrow> Some None
      | c # r \<Rightarrow>
          if (c = CHR ''+'' \<or> c = CHR ''-'') \<and> length r \<ge> 5 \<and> r ! 2 = CHR '':''
          then (case (num_of (take 2 r), num_of (take 2 (drop 3 r)), parse_offset_seconds (drop 5 r)) of
                  (Some hh, Some mm, Some (ss, us)) \<Rightarrow>
                    (let mag = int (((hh * 60 + mm) * 60 + ss) * 1000000 + us);
                         off = (if c = CHR ''-'' then - mag else mag)
                     in if mm < 60 \<and> ss < 60 \<and> valid_offset (Some off)
                        then Some (Some off) else None)
                | _ \<Rightarrow> None)
          else None)"

definition fromisoformat :: "string \<Rightarrow> datetime option" where
  "fromisoformat s =
     (if length s < 19 \<or> s ! 4 \<noteq> CHR ''-'' \<or> s ! 7 \<noteq> CHR ''-'' \<or>
         s ! 13 \<noteq> CHR '':'' \<or> s ! 16 \<noteq> CHR '':'' then None
      else
        (case (num_of (take 4 s), num_of (take 2 (drop 5 s)), num_of (take 2 (drop 8 s)),
               num_of (take 2 (drop 11 s)), num_of (take 2 (drop 14 s)),
               num_of (take 2 (drop 17 s))) of
           (Some y, Some mo, Some d, Some h, Some mi, Some sec) \<Rightarrow>
             (case parse_fraction (drop 19 s) of
                None \<Rightarrow> None
              | Some (us, rest) \<Rightarrow>
                  (case parse_offset rest of
                     None \<Rightarrow> None
                   | Some tz \<Rightarrow>
                       (let dt = \<lparr>year = y, month = mo, day = d, hour = h, minute = mi,
                                  second = sec, microsecond = us, tzinfo = tz\<rparr>
                        in if valid_datetime dt then Some dt else None)))
         | _ \<Rightarrow> None))"

section \<open>timestamp\_tracker.py\<close>

text \<open>
  What a file on disk can be when the program opens it, and what can happen when the
  program rewrites it. \<open>Holds j\<close> is a file that \<open>json.load\<close> reads as \<open>j\<close>;
  \<open>Garbled\<close> is a file that \<open>json.load\<close> rejects (\<open>JSONDecodeError\<close>);
  \<open>Unreadable\<close> is a file whose \<open>open\<close> raises an \<open>OSError\<close>.
\<close>

datatype file_state = Missing | Unreadable | Garbled | Holds json

datatype write_outcome = Write_ok | Write_denied | Write_interrupted

text \<open>
  Writing \<open>j\<close> with \<open>open(path, 'w')\<close> and \<open>json.dump\<close>: the new state
  of the file and whether an exception was raised. A denied \<open>open\<close> leaves the file as it
  was; a dump that is interrupted leaves a truncated file.
\<close>

definition write_json :: "write_outcome \<Rightarrow> file_state \<Rightarrow> json \<Rightarrow> file_state \<times> bool" where
  "write_json w f j =
     (case w of
        Write_ok \<Rightarrow> (Holds j, True)
      | Write_denied \<Rightarrow> (f, False)
      | Write_interrupted \<Rightarrow> (Garbled, False))"

text \<open>The tracker object together with the part of the file system it touches.\<close>

record tracker =
  timestamp_file :: file_state
  timestamp_write :: write_outcome

text \<open>An argument \<open>chat_id\<close>: \<open>None\<close>, an \<open>int\<close> or a \<open>str\<close>.\<close>

datatype chat_id = No_chat | Int_chat int | Str_chat string

fun chat_truthy :: "chat_id \<Rightarrow> bool" where
  "chat_truthy No_chat = False"
| "chat_truthy (Int_chat i) = (i \<noteq> 0)"
| "chat_truthy (Str_chat s) = (s \<noteq> [])"

fun chat_str :: "chat_id \<Rightarrow> string" where
  "chat_str No_chat = ''None''"
| "chat_str (Int_chat i) = str_int i"
| "chat_str (Str_chat s) = s"

text \<open>\<open>key = str(chat_id) if chat_id else "global"\<close>\<close>

definition chat_key :: "chat_id \<Rightarrow> string" where
  "chat_key c = (if chat_truthy c then chat_str c else ''global'')"

definition save_timestamp_data :: "tracker \<Rightarrow> json \<Rightarrow> tracker" where
  "save_timestamp_data tr data =
     tr\<lparr>timestamp_file := fst (write_json (timestamp_write tr) (timestamp_file tr) data)\<rparr>"

definition load_timestamp_data :: "tracker \<Rightarrow> json" where
  "load_timestamp_data tr =
     (case timestamp_file tr of
        Holds j \<Rightarrow> j
      | _ \<Rightarrow> JDict [])"

definition get_last_check_timestamp :: "tracker \<Rightarrow> chat_id \<Rightarrow> error + datetime option" where
  "get_last_check_timestamp tr c =
     (case load_timestamp_data tr of
        JDict data \<Rightarrow>
          (case dict_get data (chat_key c) of
             None \<Rightarrow> Inr None
           | Some timestamp_str \<Rightarrow>
               if truthy timestamp_str
               then (case timestamp_str of
                       JStr s \<Rightarrow> Inr (fromisoformat s)
                     | _ \<Rightarrow> Inl TypeError)
               else Inr None)
      | _ \<Rightarrow> Inl AttributeError)"

text \<open>
  \<open>update_last_check_timestamp(chat_id, timestamp)\<close>; \<open>now\<close> is what
  \<open>datetime.now(timezone.utc)\<close> returns when no timestamp is given.
\<close>

definition update_last_check_timestamp ::
  "datetime \<Rightarrow> tracker \<Rightarrow> chat_id \<Rightarrow> datetime option \<Rightarrow> error + tracker" where
  "update_last_check_timestamp now tr c timestamp =
     (let ts = (case timestamp of None \<Rightarrow> now | Some t \<Rightarrow> t);
          ts' = (if tzinfo ts = None then replace_tzinfo_utc ts else ts)
      in case load_timestamp_data tr of
           JDict data \<Rightarrow>
             Inr (save_timestamp_data tr (JDict (dict_set data (chat_key c) (JStr (isoformat ts')))))
         | _ \<Rightarrow> Inl TypeError)"

definition should_process_message :: "tracker \<Rightarrow> datetime \<Rightarrow> chat_id \<Rightarrow> error + bool" where
  "should_process_message tr message_date c =
     (case get_last_check_timestamp tr c of
        Inl e \<Rightarrow> Inl e
      | Inr None \<Rightarrow> Inr True
      | Inr (Some last_check) \<Rightarrow>
          (let md = (if tzinfo message_date = None then replace_tzinfo_utc message_date
                     else message_date);
               lc = (if tzinfo last_check = None then replace_tzinfo_utc last_check
                     else last_check)
           in datetime_gt md lc))"

section \<open>Strings\<close>

text \<open>
  \<open>str.strip()\<close> removes leading and trailing whitespace: the characters for which
  \<open>isspace()\<close> holds, here among the code points below 256.
\<close>

definition is_space :: "char \<Rightarrow> bool" where
  "is_space c =
     (c \<in> set [CHR 0x09, CHR 0x0A, CHR 0x0B, CHR 0x0C, CHR 0x0D, CHR 0x1C, CHR 0x1D,
                CHR 0x1E, CHR 0x1F, CHR 0x20, CHR 0x85, CHR 0xA0])"

definition strip :: "string \<Rightarrow> string" where
  "strip s = rev (dropWhile is_space (rev (dropWhile is_space s)))"

text \<open>\<open>str.lower()\<close> on ASCII letters.\<close>

definition lower_char :: "char \<Rightarrow> char" where
  "lower_char c =
     (case map_of (zip ''ABCDEFGHIJKLMNOPQRSTUVWXYZ'' ''abcdefghijklmnopqrstuvwxyz'') c of
        Some l \<Rightarrow> l
      | None \<Rightarrow> c)"

definition lower :: "string \<Rightarrow> string" where
  "lower s = map lower_char s"

text \<open>\<open>s.startswith(p)\<close>, returning what follows the prefix.\<close>

fun after_prefix :: "string \<Rightarrow> string \<Rightarrow> string option" where
  "after_prefix [] s = Some s"
| "after_prefix (p # ps) [] = None"
| "after_prefix (p # ps) (c # cs) = (if p = c then after_prefix ps cs else None)"

definition startswith :: "string \<Rightarrow> string \<Rightarrow> bool" where
  "startswith s p = (after_prefix p s \<noteq> None)"

section \<open>agent\_enhanced.py: the URL extractor\<close>

text \<open>
  The pattern of \<open>extract_urls_from_text\<close> is
  \<^verbatim>\<open>https?://(?:[-\w.])+(?:[:\d]+)?(?:/(?:[\w/_.])*(?:\?(?:[\w&=%.])*)?(?:#(?:[\w.])*)?)?\<close>.
  After the host every part is optional and every repetition is greedy, so a match never
  backtracks: each part takes the longest run of its character class. \<open>\w\<close> and
  \<open>\d\<close> are read on ASCII text.
\<close>

definition is_word :: "char \<Rightarrow> bool" where
  "is_word c =
     (c \<in> set ''abcdefghijklmnopqrstuvwxyzABCDEFGHIJKLMNOPQRSTUVWXYZ0123456789_'')"

definition is_host_char :: "char \<Rightarrow> bool" where
  "is_host_char c = (c = CHR ''-'' \<or> is_word c \<or> c = CHR ''.'')"

definition is_port_char :: "char \<Rightarrow> bool" where
  "is_port_char c = (c = CHR '':'' \<or> c \<in> set ''0123456789'')"

definition is_path_char :: "char \<Rightarrow> bool" where
  "is_path_char c = (is_word c \<or> c = CHR ''/'' \<or> c = CHR ''_'' \<or> c = CHR ''.'')"

definition is_query_char :: "char \<Rightarrow> bool" where
  "is_query_char c = (is_word c \<or> c = CHR ''&'' \<or> c = CHR ''='' \<or> c = CHR ''%'' \<or> c = CHR ''.'')"

definition is_fragment_char :: "char \<Rightarrow> bool" where
  "is_fragment_char c = (is_word c \<or> c = CHR ''.'')"

text \<open>
  An optional part that opens with the character \<open>c\<close> and goes on with a run of the
  class \<open>cls\<close>: the text it takes, and what is left.
\<close>

definition opened_run :: "char \<Rightarrow> (char \<Rightarrow> bool) \<Rightarrow> string \<Rightarrow> string \<times> string" where
  "opened_run c cls s =
     (case s of
        [] \<Rightarrow> ([], s)
      | x # r \<Rightarrow> if x = c then (x # takeWhile cls r, dropWhile cls r) else ([], s))"

text \<open>The optional path with its optional query and fragment.\<close>

definition match_path :: "string \<Rightarrow> string \<times> string" where
  "match_path s =
     (case opened_run CHR ''/'' is_path_char s of
        ([], _) \<Rightarrow> ([], s)
      | (path, r1) \<Rightarrow>
          (case opened_run CHR ''?'' is_query_char r1 of
             (query, r2) \<Rightarrow>
               (case opened_run CHR ''#'' is_fragment_char r2 of
                  (fragment, r3) \<Rightarrow> (path @ query @ fragment, r3))))"

text \<open>A match of the pattern at the start of \<open>s\<close>: the matched text and the rest.\<close>

definition match_url :: "string \<Rightarrow> (string \<times> string) option" where
  "match_url s =
     (case after_prefix ''http'' s of
        None \<Rightarrow> None
      | Some r1 \<Rightarrow>
          (let (scheme, r2) = (case after_prefix ''s'' r1 of
                                 Some r \<Rightarrow> (''https'', r)
                               | None \<Rightarrow> (''http'', r1))
           in case after_prefix ''://'' r2 of
                None \<Rightarrow> None
              | Some r3 \<Rightarrow>
                  (let host = takeWhile is_host_char r3;
                       r4 = dropWhile is_host_char r3;
                       port = takeWhile is_port_char r4;
                       r5 = dropWhile is_port_char r4;
                       (path, r6) = match_path r5
                   in if host = [] then None
                      else Some (scheme @ ''://'' @ host @ port @ path, r6))))"

text \<open>
  \<open>re.findall\<close>: the matches from left to right, none overlapping. The first argument
  counts the characters of the last match that are still to be passed over.
\<close>

fun findall_urls :: "nat \<Rightarrow> string \<Rightarrow> string list" where
  "findall_urls n [] = []"
| "findall_urls (Suc n) (c # cs) = findall_urls n cs"
| "findall_urls 0 (c # cs) =
     (case match_url (c # cs) of
        Some (m, rest) \<Rightarrow> m # findall_urls (length m - 1) cs
      | None \<Rightarrow> findall_urls 0 cs)"

definition extract_urls_from_text :: "string \<Rightarrow> string list" where
  "extract_urls_from_text message_text = (if message_text = [] then [] else findall_urls 0 message_text)"

section \<open>The outside world\<close>

text \<open>
  What \<open>BeautifulSoup\<close> hands out for a page: for an element its tag name, its
  \<open>content\<close> and \<open>src\<close> attributes, its text and its text with \<open>strip=True\<close>; for
  the page the answers of \<open>select_one\<close> and \<open>find\<close>, and the body as text.
\<close>

record element =
  el_name :: string
  el_content :: "string option"
  el_src :: "string option"
  el_text :: string
  el_text_stripped :: string

record page =
  page_text :: string
  select_one :: "string \<Rightarrow> element option"
  find_meta_name :: "string \<Rightarrow> element option"
  find_meta_property :: "string \<Rightarrow> element option"
  find_title :: "element option"

text \<open>
  Fetching a URL: the request raises (a timeout, a refused connection, an HTTP error
  status), something else in the extraction raises, or the page is there. The string is
  the exception's message.
\<close>

datatype fetch_result = Request_failed string | Extraction_failed string | Fetched page

text \<open>
  The answer of the enrichment service as \<open>_call_llm\<close> returns it: the empty string
  (the call failed or returned a status other than 200), a non-empty string that
  \<open>json.loads\<close> rejects, or a non-empty string that \<open>json.loads\<close> reads.
\<close>

datatype llm_response = Llm_empty | Llm_not_json | Llm_json json

text \<open>The \<open>SimpleLLMProcessor\<close> object of \<open>agent_enhanced.py\<close>.\<close>

record simple_llm_processor =
  openai_key :: "string option"
  anthropic_key :: "string option"
  provider :: "string option"

text \<open>
  Everything the code reads from outside: the web, the enrichment service, the clocks,
  whether writing an ODT file raises and whether the chat is found. \<open>agent_provider\<close> is
  the \<open>provider\<close> of the \<open>LLMProcessor\<close> object of \<open>agent.py\<close>.
\<close>

record env =
  fetch :: "string \<Rightarrow> fetch_result"
  llm_processor :: simple_llm_processor
  agent_provider :: "string option"
  article_reply :: "string \<Rightarrow> llm_response"
  message_reply :: "string \<Rightarrow> llm_response"
  utc_now :: datetime
  local_now :: datetime
  odt_fails :: bool
  chat_found :: bool

section \<open>simple\_llm\_processor.py\<close>

definition key_truthy :: "string option \<Rightarrow> bool" where
  "key_truthy k = (case k of None \<Rightarrow> False | Some s \<Rightarrow> s \<noteq> [])"

definition is_available :: "simple_llm_processor \<Rightarrow> bool" where
  "is_available p = (provider p \<noteq> None \<and> (key_truthy (openai_key p) \<or> key_truthy (anthropic_key p)))"

text \<open>\<open>_call_llm\<close>; \<open>reply\<close> is what the provider's API call returns.\<close>

definition call_llm :: "simple_llm_processor \<Rightarrow> llm_response \<Rightarrow> llm_response" where
  "call_llm p reply =
     (if \<not> is_available p then Llm_empty
      else if provider p = Some ''anthropic'' then reply
      else if provider p = Some ''openai'' then reply
      else Llm_empty)"

definition get_or :: "(string \<times> json) list \<Rightarrow> string \<Rightarrow> json \<Rightarrow> json" where
  "get_or d k dflt = (case dict_get d k of Some v \<Rightarrow> v | None \<Rightarrow> dflt)"

definition provider_json :: "string option \<Rightarrow> json" where
  "provider_json p = (case p of None \<Rightarrow> JNull | Some s \<Rightarrow> JStr s)"

text \<open>\<open>result.update({...})\<close>: the keys are set in the order of the literal.\<close>

definition dict_update :: "(string \<times> json) list \<Rightarrow> (string \<times> json) list \<Rightarrow> (string \<times> json) list" where
  "dict_update d kvs = foldl (\<lambda>acc (k, v). dict_set acc k v) d kvs"

definition merge_enhanced ::
  "string option \<Rightarrow> (string \<times> json) list \<Rightarrow> (string \<times> json) list \<Rightarrow> (string \<times> json) list" where
  "merge_enhanced prov basic_data enhanced_data =
     dict_update basic_data
       [(''title'', get_or enhanced_data ''title'' (get_or basic_data ''title'' JNull)),
        (''summary'', get_or enhanced_data ''summary'' (get_or basic_data ''summary'' JNull)),
        (''author'', get_or enhanced_data ''author'' (get_or basic_data ''author'' JNull)),
        (''category'', get_or enhanced_data ''category'' (JStr ''Unknown'')),
        (''key_points'', get_or enhanced_data ''key_points'' (JList [])),
        (''confidence'', get_or enhanced_data ''confidence'' (JStr ''medium'')),
        (''article_type'', get_or enhanced_data ''article_type'' (JStr ''unknown'')),
        (''enhanced_by_llm'', JBool True),
        (''llm_provider'', provider_json prov)]"

text \<open>
  \<open>SimpleLLMProcessor.enhance_article_extraction\<close>. A reply that is JSON but no object
  raises \<open>AttributeError\<close> at its first \<open>.get\<close>, which the outer handler swallows.
\<close>

definition enhance_article_extraction ::
  "simple_llm_processor \<Rightarrow> llm_response \<Rightarrow> (string \<times> json) list \<Rightarrow> (string \<times> json) list" where
  "enhance_article_extraction p reply basic_data =
     (if \<not> is_available p then dict_set basic_data ''enhanced_by_llm'' (JBool False)
      else case call_llm p reply of
             Llm_json (JDict enhanced_data) \<Rightarrow> merge_enhanced (provider p) basic_data enhanced_data
           | _ \<Rightarrow> dict_set basic_data ''enhanced_by_llm'' (JBool False))"

text \<open>The summary rule of both fallbacks.\<close>

definition short_summary :: "string \<Rightarrow> string" where
  "short_summary message_text =
     (if length message_text > 100 then take 100 message_text @ ''...'' else message_text)"

text \<open>
  \<open>SimpleLLMProcessor.summarize_message\<close>. A reply that is JSON but no object raises
  \<open>TypeError\<close> at the first item assignment, which the outer handler swallows.
\<close>

definition summarize_message ::
  "simple_llm_processor \<Rightarrow> llm_response \<Rightarrow> string \<Rightarrow> json \<Rightarrow> (string \<times> json) list" where
  "summarize_message p reply message_text sender_name =
     (if \<not> is_available p \<or> strip message_text = []
      then [(''summary'', JStr (short_summary message_text)),
            (''sentiment'', JStr ''neutral''),
            (''topics'', JList []),
            (''importance'', JStr ''medium''),
            (''enhanced_by_llm'', JBool False),
            (''original_message'', JStr message_text),
            (''sender'', sender_name)]
      else case call_llm p reply of
             Llm_json (JDict analysis) \<Rightarrow>
               dict_set (dict_set (dict_set (dict_set analysis
                 ''enhanced_by_llm'' (JBool True))
                 ''llm_provider'' (provider_json (provider p)))
                 ''original_message'' (JStr message_text))
                 ''sender'' sender_name
           | _ \<Rightarrow>
               [(''summary'', JStr (short_summary message_text)),
                (''sentiment'', JStr ''neutral''),
                (''topics'', JList []),
                (''importance'', JStr ''medium''),
                (''message_type'', JStr ''other''),
                (''key_words'', JList []),
                (''enhanced_by_llm'', JBool False),
                (''original_message'', JStr message_text),
                (''sender'', sender_name)])"

section \<open>agent\_enhanced.py: the article resolver\<close>

text \<open>\<open>x or default\<close> for a string that may be \<open>None\<close>.\<close>

definition or_default :: "string option \<Rightarrow> string \<Rightarrow> string" where
  "or_default x dflt = (case x of None \<Rightarrow> dflt | Some s \<Rightarrow> if s = [] then dflt else s)"

text \<open>\<open>element.get('content', '')\<close> and \<open>element.get('src', '')\<close>.\<close>

definition attr_or :: "string option \<Rightarrow> string \<Rightarrow> string" where
  "attr_or a dflt = (case a of None \<Rightarrow> dflt | Some s \<Rightarrow> s)"

text \<open>
  \<open>urlparse(url).scheme\<close> and \<open>.netloc\<close>, for a URL of the shape the extractor
  returns: the scheme stands before \<open>://\<close> and the network location runs up to the
  first \<open>/\<close>, \<open>?\<close> or \<open>#\<close>.
\<close>

definition url_scheme :: "string \<Rightarrow> string" where
  "url_scheme url = takeWhile (\<lambda>c. c \<noteq> CHR '':'') url"

definition url_netloc :: "string \<Rightarrow> string" where
  "url_netloc url =
     (case after_prefix ''://'' (dropWhile (\<lambda>c. c \<noteq> CHR '':'') url) of
        None \<Rightarrow> []
      | Some r \<Rightarrow> takeWhile (\<lambda>c. c \<noteq> CHR ''/'' \<and> c \<noteq> CHR ''?'' \<and> c \<noteq> CHR ''#'') r)"

text \<open>The loop over \<open>title_selectors\<close>: the first element with non-empty text.\<close>

fun find_title_text :: "page \<Rightarrow> string list \<Rightarrow> string option" where
  "find_title_text pg [] = None"
| "find_title_text pg (selector # rest) =
     (case select_one pg selector of
        None \<Rightarrow> find_title_text pg rest
      | Some el \<Rightarrow>
          if el_text_stripped el \<noteq> [] then Some (el_text_stripped el)
          else find_title_text pg rest)"

text \<open>
  The loop over \<open>author_selectors\<close>. The variable \<open>author\<close> is assigned for every
  element found and the loop stops at the first non-empty value.
\<close>

fun find_author :: "page \<Rightarrow> string list \<Rightarrow> string option \<Rightarrow> string option" where
  "find_author pg [] author = author"
| "find_author pg (selector # rest) author =
     (case select_one pg selector of
        None \<Rightarrow> find_author pg rest author
      | Some el \<Rightarrow>
          (let a = (if el_name el = ''meta'' then attr_or (el_content el) []
                    else el_text_stripped el)
           in if a \<noteq> [] then Some a else find_author pg rest (Some a)))"

text \<open>Making a relative image URL absolute.\<close>

definition absolute_image :: "string \<Rightarrow> string \<Rightarrow> string" where
  "absolute_image url img =
     (if startswith img ''//'' then ''https:'' @ img
      else if startswith img ''/'' then url_scheme url @ ''://'' @ url_netloc url @ img
      else img)"

fun find_image :: "page \<Rightarrow> string \<Rightarrow> string list \<Rightarrow> string option \<Rightarrow> string option" where
  "find_image pg url [] img = img"
| "find_image pg url (selector # rest) img =
     (case select_one pg selector of
        None \<Rightarrow> find_image pg url rest img
      | Some el \<Rightarrow>
          (let i = (if el_name el = ''meta'' then attr_or (el_content el) []
                    else attr_or (el_src el) [])
           in if i \<noteq> [] then Some (absolute_image url i) else find_image pg url rest (Some i)))"

text \<open>The selector lists; \<open>quoted s\<close> is \<open>s\<close> between double quotes.\<close>

definition quoted :: "string \<Rightarrow> string" where
  "quoted s = CHR 0x22 # s @ [CHR 0x22]"

definition title_selectors :: "string list" where
  "title_selectors = [''h1'', ''title'', ''.title'', ''.headline'', ''h1.title'']"

definition author_selectors :: "string list" where
  "author_selectors =
     [''meta[name='' @ quoted ''author'' @ '']'', ''.author'', ''.byline'',
      ''[rel='' @ quoted ''author'' @ '']'']"

definition image_selectors :: "string list" where
  "image_selectors =
     [''meta[property='' @ quoted ''og:image'' @ '']'',
      ''meta[name='' @ quoted ''twitter:image'' @ '']'',
      ''.featured-image img'', ''article img'', ''.content img'']"

definition error_article :: "env \<Rightarrow> string \<Rightarrow> string \<Rightarrow> (string \<times> json) list" where
  "error_article e url msg =
     [(''url'', JStr url),
      (''title'', JStr (''Failed to extract: '' @ url)),
      (''summary'', JStr (''Error occurred: '' @ msg)),
      (''author'', JStr ''Unknown''),
      (''image'', JNull),
      (''extracted_at'', JStr (isoformat (utc_now e))),
      (''extraction_method'', JStr ''error''),
      (''enhanced_by_llm'', JBool False)]"

definition extract_article_content :: "env \<Rightarrow> string \<Rightarrow> (string \<times> json) list" where
  "extract_article_content e url =
     (case fetch e url of
        Fetched pg \<Rightarrow>
          (let title = find_title_text pg title_selectors;
               summary = (case find_meta_name pg ''description'' of
                            None \<Rightarrow> None
                          | Some meta_desc \<Rightarrow> Some (attr_or (el_content meta_desc) []));
               author = find_author pg author_selectors None;
               img = find_image pg url image_selectors None;
               article_data =
                 [(''url'', JStr url),
                  (''title'', JStr (or_default title ''Unknown Title'')),
                  (''summary'', JStr (or_default summary ''No summary available'')),
                  (''author'', JStr (or_default author ''Unknown Author'')),
                  (''image'', (case img of None \<Rightarrow> JNull | Some i \<Rightarrow> JStr i)),
                  (''extracted_at'', JStr (isoformat (utc_now e))),
                  (''extraction_method'', JStr ''web_scraping'')]
           in if is_available (llm_processor e)
              then enhance_article_extraction (llm_processor e) (article_reply e url) article_data
              else dict_set article_data ''enhanced_by_llm'' (JBool False))
      | Request_failed msg \<Rightarrow> error_article e url msg
      | Extraction_failed msg \<Rightarrow> error_article e url msg)"

section \<open>agent\_enhanced.py: the coordinator\<close>

fun process_urls :: "env \<Rightarrow> json \<Rightarrow> string list \<Rightarrow> (string \<times> json) list list" where
  "process_urls e sender_name [] = []"
| "process_urls e sender_name (url # urls) =
     (let article_data = extract_article_content e url
      in if article_data \<noteq> []
         then dict_set article_data ''sender'' sender_name # process_urls e sender_name urls
         else process_urls e sender_name urls)"

definition process_urls_in_message :: "env \<Rightarrow> string \<Rightarrow> json \<Rightarrow> (string \<times> json) list list" where
  "process_urls_in_message e message_text sender_name =
     process_urls e sender_name (extract_urls_from_text message_text)"

definition process_message_content :: "env \<Rightarrow> string \<Rightarrow> json \<Rightarrow> (string \<times> json) list option" where
  "process_message_content e message_text sender_name =
     (if strip message_text = [] then None
      else if is_available (llm_processor e)
      then Some (summarize_message (llm_processor e) (message_reply e message_text)
                   message_text sender_name)
      else Some [(''summary'', JStr (short_summary message_text)),
                 (''sentiment'', JStr ''neutral''),
                 (''topics'', JList []),
                 (''importance'', JStr ''medium''),
                 (''message_type'', JStr ''text''),
                 (''enhanced_by_llm'', JBool False),
                 (''original_message'', JStr message_text),
                 (''sender'', sender_name),
                 (''analyzed_at'', JStr (isoformat (utc_now e)))])"

text \<open>
  A message as the connector delivers it: \<open>msg_sender\<close> is the outcome of
  \<open>getattr(await message.get_sender(), 'first_name', 'Unknown')\<close> (the lookup can raise,
  and the attribute can be \<open>None\<close>), \<open>msg_text\<close> is \<open>message.text\<close> and \<open>msg_date\<close> is
  \<open>message.date\<close>.
\<close>

record message =
  msg_sender :: "error + json"
  msg_text :: "string option"
  msg_date :: datetime

text \<open>
  The state the coordinator works on: the publication file, what happens when it is
  rewritten, and the checkpoint store.
\<close>

record world =
  publications_file :: file_state
  publications_write :: write_outcome
  timestamp_tracker :: tracker

definition load_existing_publications :: "world \<Rightarrow> error + json" where
  "load_existing_publications w =
     (case publications_file w of
        Missing \<Rightarrow> Inr (JList [])
      | Garbled \<Rightarrow> Inr (JList [])
      | Unreadable \<Rightarrow> Inl OSError
      | Holds j \<Rightarrow> Inr j)"

definition save_publications :: "world \<Rightarrow> json \<Rightarrow> world \<times> bool" where
  "save_publications w publications_list =
     (case write_json (publications_write w) (publications_file w) publications_list of
        (f, ok) \<Rightarrow> (w\<lparr>publications_file := f\<rparr>, ok))"

text \<open>\<open>publications.append(x)\<close>: only a list has \<open>append\<close>.\<close>

definition list_append :: "json \<Rightarrow> json \<Rightarrow> error + json" where
  "list_append publications x =
     (case publications of
        JList xs \<Rightarrow> Inr (JList (xs @ [x]))
      | _ \<Rightarrow> Inl AttributeError)"

definition json_len :: "json \<Rightarrow> nat" where
  "json_len j = (case j of JList xs \<Rightarrow> length xs | JDict kvs \<Rightarrow> length kvs | JStr s \<Rightarrow> length s | _ \<Rightarrow> 0)"

text \<open>
  \<open>create_odt_document\<close> has no \<open>return\<close> statement: it returns \<open>None\<close> or raises.
\<close>

definition create_odt_document :: "env \<Rightarrow> (string \<times> json) list \<Rightarrow> error + json" where
  "create_odt_document e article = (if odt_fails e then Inl OSError else Inr JNull)"

definition odt_filename :: "env \<Rightarrow> nat \<Rightarrow> string" where
  "odt_filename e n =
     ''article_'' @ str_nat n @ ''_'' @
     pad 4 (year (local_now e)) @ pad 2 (month (local_now e)) @ pad 2 (day (local_now e)) @ ''_'' @
     pad 2 (hour (local_now e)) @ pad 2 (minute (local_now e)) @ pad 2 (second (local_now e)) @
     ''.odt''"

text \<open>
  The loop over the articles of a message: each is appended to the list, then its ODT
  document is written; the article in the list gets an \<open>odt_file\<close> entry when
  \<open>create_odt_document\<close> returns a true value, and a failure there is only logged.
\<close>

fun append_articles :: "env \<Rightarrow> json \<Rightarrow> (string \<times> json) list list \<Rightarrow> error + json" where
  "append_articles e publications [] = Inr publications"
| "append_articles e publications (article # rest) =
     (case list_append publications (JDict article) of
        Inl err \<Rightarrow> Inl err
      | Inr appended \<Rightarrow>
          (let article' =
                 (case create_odt_document e article of
                    Inl err \<Rightarrow> article
                  | Inr r \<Rightarrow>
                      if truthy r
                      then dict_set article ''odt_file'' (JStr (odt_filename e (json_len appended)))
                      else article)
           in case publications of
                JList xs \<Rightarrow> append_articles e (JList (xs @ [JDict article'])) rest
              | _ \<Rightarrow> Inl AttributeError))"

text \<open>
  \<open>tracking_chat_id\<close>, from the configured \<open>TELEGRAM_CHAT_ID\<close>.
\<close>

definition tracking_chat_id :: "string \<Rightarrow> string" where
  "tracking_chat_id chat = (if lower chat = ''me'' then ''me'' else chat)"

definition aware_date :: "datetime \<Rightarrow> datetime" where
  "aware_date d = (if tzinfo d = None then replace_tzinfo_utc d else d)"

text \<open>
  The body of \<open>handle_new_message\<close>, inside its \<open>try\<close>: the state it leaves and the
  exception it stopped at, if any. \<open>chat\<close> is the configured \<open>TELEGRAM_CHAT_ID\<close>.
\<close>

definition handle_new_message_body :: "env \<Rightarrow> string \<Rightarrow> world \<Rightarrow> message \<Rightarrow> world \<times> error option" where
  "handle_new_message_body e chat w m =
     (case msg_sender m of
        Inl err \<Rightarrow> (w, Some err)
      | Inr sender_name \<Rightarrow>
          (let message_text = (case msg_text m of None \<Rightarrow> [] | Some t \<Rightarrow> t);
               message_date = aware_date (msg_date m);
               tracking = tracking_chat_id chat
           in case should_process_message (timestamp_tracker w) message_date (Str_chat tracking) of
                Inl err \<Rightarrow> (w, Some err)
              | Inr False \<Rightarrow> (w, None)
              | Inr True \<Rightarrow>
                  (case load_existing_publications w of
                     Inl err \<Rightarrow> (w, Some err)
                   | Inr publications \<Rightarrow>
                       (let articles = process_urls_in_message e message_text sender_name
                        in case append_articles e publications articles of
                             Inl err \<Rightarrow> (w, Some err)
                           | Inr publications1 \<Rightarrow>
                               (let message_analysis = process_message_content e message_text sender_name;
                                    analysed = (case message_analysis of
                                                  None \<Rightarrow> False
                                                | Some a \<Rightarrow> a \<noteq> []);
                                    appended =
                                      (case message_analysis of
                                         None \<Rightarrow> Inr publications1
                                       | Some a \<Rightarrow>
                                           if a \<noteq> []
                                           then list_append publications1
                                                  (JDict (dict_set
                                                     (dict_set a ''message_date''
                                                        (JStr (isoformat message_date)))
                                                     ''chat_id'' (JStr tracking)))
                                           else Inr publications1)
                                in case appended of
                                     Inl err \<Rightarrow> (w, Some err)
                                   | Inr publications2 \<Rightarrow>
                                       (let w1 = (if articles \<noteq> [] \<or> analysed
                                                  then fst (save_publications w publications2)
                                                  else w)
                                        in case update_last_check_timestamp (utc_now e)
                                                  (timestamp_tracker w1) (Str_chat tracking)
                                                  (Some message_date) of
                                             Inl err \<Rightarrow> (w1, Some err)
                                           | Inr tr \<Rightarrow>
                                               (w1\<lparr>timestamp_tracker := tr\<rparr>, None)))))))"

text \<open>\<open>handle_new_message\<close> logs an exception and returns.\<close>

definition handle_new_message :: "env \<Rightarrow> string \<Rightarrow> world \<Rightarrow> message \<Rightarrow> world" where
  "handle_new_message e chat w m = fst (handle_new_message_body e chat w m)"

text \<open>
  The scan of \<open>process_recent_messages\<close> over the history, newest first: the messages
  to process, in the order met, or the exception of a checkpoint read.
\<close>

fun scan_messages :: "tracker \<Rightarrow> chat_id \<Rightarrow> message list \<Rightarrow> error + message list" where
  "scan_messages tr c [] = Inr []"
| "scan_messages tr c (m # ms) =
     (case should_process_message tr (aware_date (msg_date m)) c of
        Inl err \<Rightarrow> Inl err
      | Inr b \<Rightarrow>
          (case scan_messages tr c ms of
             Inl err \<Rightarrow> Inl err
           | Inr found \<Rightarrow> Inr (if b then m # found else found)))"

text \<open>
  \<open>process_recent_messages(client, chat_id, limit)\<close>; \<open>history\<close> is the chat's
  history, newest first, of which \<open>iter_messages\<close> yields the first \<open>limit\<close>. The first
  checkpoint read and the last checkpoint write stand outside the \<open>try\<close>.
\<close>

definition process_recent_messages ::
  "env \<Rightarrow> string \<Rightarrow> world \<Rightarrow> message list \<Rightarrow> nat \<Rightarrow> error + world" where
  "process_recent_messages e chat w history limit =
     (let tracking = Str_chat (tracking_chat_id chat)
      in case get_last_check_timestamp (timestamp_tracker w) tracking of
           Inl err \<Rightarrow> Inl err
         | Inr last_check \<Rightarrow>
             if \<not> chat_found e then Inr w
             else
               (let w1 = (case scan_messages (timestamp_tracker w) tracking (take limit history) of
                            Inl err \<Rightarrow> w
                          | Inr messages_to_process \<Rightarrow>
                              foldl (handle_new_message e chat) w (rev messages_to_process))
                in case update_last_check_timestamp (utc_now e) (timestamp_tracker w1) tracking None of
                     Inl err \<Rightarrow> Inl err
                   | Inr tr \<Rightarrow> Inr (w1\<lparr>timestamp_tracker := tr\<rparr>)))"

section \<open>agent.py: the article resolver\<close>

text \<open>\<open>a or b\<close> for the results of \<open>soup.find\<close>: a tag is always true.\<close>

definition or_else :: "element option \<Rightarrow> element option \<Rightarrow> element option" where
  "or_else a b = (case a of None \<Rightarrow> b | Some x \<Rightarrow> Some x)"

text \<open>\<open>LLMProcessor.enhance_article_extraction\<close> of \<open>llm_processor.py\<close>.\<close>

definition agent_call_llm :: "string option \<Rightarrow> llm_response \<Rightarrow> llm_response" where
  "agent_call_llm prov reply =
     (if prov = None then Llm_empty
      else if prov = Some ''anthropic'' then reply
      else if prov = Some ''openai'' then reply
      else Llm_empty)"

definition agent_enhance_article_extraction ::
  "string option \<Rightarrow> llm_response \<Rightarrow> (string \<times> json) list \<Rightarrow> (string \<times> json) list" where
  "agent_enhance_article_extraction prov reply basic_data =
     (if prov = None then basic_data
      else case agent_call_llm prov reply of
             Llm_json (JDict enhanced_data) \<Rightarrow> merge_enhanced prov basic_data enhanced_data
           | _ \<Rightarrow> dict_set basic_data ''enhanced_by_llm'' (JBool False))"

definition strftime_date :: "datetime \<Rightarrow> string" where
  "strftime_date d = pad 4 (year d) @ ''-'' @ pad 2 (month d) @ ''-'' @ pad 2 (day d)"

definition strftime_time :: "datetime \<Rightarrow> string" where
  "strftime_time d = pad 2 (hour d) @ '':'' @ pad 2 (minute d) @ '':'' @ pad 2 (second d)"

definition fallback_article :: "env \<Rightarrow> string \<Rightarrow> (string \<times> json) list" where
  "fallback_article e url =
     [(''title'', JStr ''Could not extract title''),
      (''summary'', JStr ''Could not extract summary''),
      (''url'', JStr url),
      (''image'', JStr ''No image available''),
      (''author'', JStr ''Unknown Author''),
      (''date_extracted'', JStr (strftime_date (local_now e))),
      (''time_extracted'', JStr (strftime_time (local_now e))),
      (''enhanced_by_llm'', JBool False)]"

text \<open>
  The part of \<open>extract_article_data\<close> that builds \<open>basic_data\<close> from the parsed
  page.
\<close>

definition scrape_basic_data :: "env \<Rightarrow> page \<Rightarrow> string \<Rightarrow> (string \<times> json) list" where
  "scrape_basic_data e pg url =
     (let title_element =
            or_else (find_meta_property pg ''og:title'')
              (or_else (find_meta_name pg ''title'') (find_title pg));
          title = (case title_element of
                     Some el \<Rightarrow>
                       if el_name el = ''title'' then strip (el_text el)
                       else strip (attr_or (el_content el) [])
                   | None \<Rightarrow> ''Article Title Not Found'');
          summary_element =
            or_else (find_meta_property pg ''og:description'')
              (or_else (find_meta_name pg ''description'')
                 (find_meta_name pg ''twitter:description''));
          summary = (case summary_element of
                       Some el \<Rightarrow> strip (attr_or (el_content el) [])
                     | None \<Rightarrow> ''No summary available'');
          image_element =
            or_else (find_meta_property pg ''og:image'') (find_meta_name pg ''twitter:image'');
          image_url0 = (case image_element of
                          Some el \<Rightarrow> attr_or (el_content el) []
                        | None \<Rightarrow> []);
          image_url = (if image_url0 = [] then ''No image available'' else image_url0);
          author_element =
            or_else (find_meta_name pg ''author'') (find_meta_property pg ''article:author'');
          author = (case author_element of
                      Some el \<Rightarrow> attr_or (el_content el) ''Unknown Author''
                    | None \<Rightarrow> ''Unknown Author'')
      in [(''title'', JStr (take 200 title)),
          (''summary'', JStr (take 500 summary)),
          (''url'', JStr url),
          (''image'', JStr image_url),
          (''author'', JStr author),
          (''date_extracted'', JStr (strftime_date (local_now e))),
          (''time_extracted'', JStr (strftime_time (local_now e)))])"

definition extract_article_data :: "env \<Rightarrow> string \<Rightarrow> (string \<times> json) list" where
  "extract_article_data e url =
     (case fetch e url of
        Fetched pg \<Rightarrow>
          (let basic_data = scrape_basic_data e pg url
           in if agent_provider e \<noteq> None
              then agent_enhance_article_extraction (agent_provider e) (article_reply e url) basic_data
              else dict_set basic_data ''enhanced_by_llm'' (JBool False))
      | Request_failed msg \<Rightarrow> fallback_article e url
      | Extraction_failed msg \<Rightarrow> fallback_article e url)"

section \<open>Notions used in the statements\<close>

text \<open>
  The records that one accepted message adds to the publication list: one per URL
  occurrence, then the analysis of the message text if there is one.
\<close>

definition analysis_records :: "env \<Rightarrow> string \<Rightarrow> message \<Rightarrow> json \<Rightarrow> json list" where
  "analysis_records e chat m sender_name =
     (case process_message_content e (case msg_text m of None \<Rightarrow> [] | Some t \<Rightarrow> t) sender_name of
        None \<Rightarrow> []
      | Some a \<Rightarrow>
          if a \<noteq> []
          then [JDict (dict_set (dict_set a ''message_date'' (JStr (isoformat (aware_date (msg_date m)))))
                         ''chat_id'' (JStr (tracking_chat_id chat)))]
          else [])"

definition message_batch :: "env \<Rightarrow> string \<Rightarrow> message \<Rightarrow> json \<Rightarrow> json list" where
  "message_batch e chat m sender_name =
     map JDict (process_urls_in_message e (case msg_text m of None \<Rightarrow> [] | Some t \<Rightarrow> t) sender_name)
     @ analysis_records e chat m sender_name"

text \<open>The publication file can be read and holds a list (a missing or garbled file reads as the empty list).\<close>

definition store_is_list :: "world \<Rightarrow> bool" where
  "store_is_list w = (case load_existing_publications w of Inr (JList xs) \<Rightarrow> True | _ \<Rightarrow> False)"

text \<open>The enrichment service gave no JSON object: the call failed, or its reply is malformed.\<close>

definition no_object :: "llm_response \<Rightarrow> bool" where
  "no_object r = (case r of Llm_json (JDict d) \<Rightarrow> False | _ \<Rightarrow> True)"


text \<open>The fields that every fallback analysis of a message text \<open>t\<close> has.\<close>

definition fallback_fields :: "(string \<times> json) list \<Rightarrow> string \<Rightarrow> bool" where
  "fallback_fields a t =
     (dict_get a ''summary'' = Some (JStr (if length t > 100 then take 100 t @ ''...'' else t)) \<and>
      dict_get a ''sentiment'' = Some (JStr ''neutral'') \<and>
      dict_get a ''topics'' = Some (JList []) \<and>
      dict_get a ''importance'' = Some (JStr ''medium'') \<and>
      dict_get a ''enhanced_by_llm'' = Some (JBool False))"

section \<open>Scenario values\<close>

text \<open>
  The timestamps of the scenarios: \<open>stamp s\<close> is second \<open>s\<close> of the first minute of
  2024-01-01, UTC, so that \<open>stamp 10\<close>, \<open>stamp 20\<close> and \<open>stamp 30\<close> are the times
  \<open>t = 10, 20, 30\<close>.
\<close>

definition stamp :: "nat \<Rightarrow> datetime" where
  "stamp s = \<lparr>year = 2024, month = 1, day = 1, hour = 0, minute = 0, second = s,
              microsecond = 0, tzinfo = Some 0\<rparr>"

text \<open>
  An environment in which every fetch times out and no enrichment service is configured,
  at the time \<open>stamp 50\<close>; a state with no publication file and an empty checkpoint
  store, whose publication write has the given outcome; a message with a text, sent by
  Ann at \<open>stamp s\<close>.
\<close>

definition quiet_env :: env where
  "quiet_env =
     \<lparr>fetch = (\<lambda>url. Request_failed ''timed out''),
      llm_processor = \<lparr>openai_key = None, anthropic_key = None, provider = None\<rparr>,
      agent_provider = None,
      article_reply = (\<lambda>url. Llm_empty),
      message_reply = (\<lambda>t. Llm_empty),
      utc_now = stamp 50, local_now = stamp 50, odt_fails = False, chat_found = True\<rparr>"

definition fresh_world :: "write_outcome \<Rightarrow> world" where
  "fresh_world wo =
     \<lparr>publications_file = Missing, publications_write = wo,
      timestamp_tracker = \<lparr>timestamp_file = Holds (JDict []), timestamp_write = Write_ok\<rparr>\<rparr>"

definition text_message :: "nat \<Rightarrow> string \<Rightarrow> message" where
  "text_message s t = \<lparr>msg_sender = Inr (JStr ''Ann''), msg_text = Some t, msg_date = stamp s\<rparr>"

text \<open>
  A page on which nothing is found, and an environment in which every fetch returns it
  and the enrichment service of \<open>agent.py\<close> answers with a title of 201 characters.
\<close>

definition blank_page :: page where
  "blank_page =
     \<lparr>page_text = [], select_one = (\<lambda>sel. None), find_meta_name = (\<lambda>n. None),
      find_meta_property = (\<lambda>p. None), find_title = None\<rparr>"

definition enriching_env :: env where
  "enriching_env =
     \<lparr>fetch = (\<lambda>url. Fetched blank_page),
      llm_processor = \<lparr>openai_key = Some ''k'', anthropic_key = None, provider = Some ''openai''\<rparr>,
      agent_provider = Some ''openai'',
      article_reply = (\<lambda>url. Llm_json (JDict [(''title'', JStr (replicate 201 CHR ''a''))])),
      message_reply = (\<lambda>t. Llm_not_json),
      utc_now = stamp 50, local_now = stamp 50, odt_fails = False, chat_found = True\<rparr>"


definition records_with_url :: "string \<Rightarrow> json list \<Rightarrow> nat" where
  "records_with_url url ys =
     length (filter (\<lambda>r. case r of JDict d \<Rightarrow> dict_get d ''url'' = Some (JStr url) | _ \<Rightarrow> False) ys)"

section \<open>Facts about digits and timestamps\<close>

lemma length_pad [simp]: "length (pad w n) = w"
  by (induction w arbitrary: n) auto

lemma of_char_digit_char: "d < 10 \<Longrightarrow> (of_char (digit_char d) :: nat) = 48 + d"
  by (simp add: digit_char_def)

lemma is_digit_digit_char: "d < 10 \<Longrightarrow> is_digit (digit_char d)"
  by (simp add: is_digit_def of_char_digit_char)

lemma digit_val_digit_char: "d < 10 \<Longrightarrow> digit_val (digit_char d) = d"
  by (simp add: digit_val_def of_char_digit_char)

lemma list_all_pad: "list_all is_digit (pad w n)"
  by (induction w arbitrary: n) (simp_all add: is_digit_digit_char)

lemma foldl_pad: "foldl (\<lambda>a c. 10 * a + digit_val c) 0 (pad w n) = n mod 10 ^ w"
proof (induction w arbitrary: n)
  case 0
  show ?case by simp
next
  case (Suc w)
  have "n mod 10 ^ Suc w = 10 * (n div 10 mod 10 ^ w) + n mod 10"
    by (simp add: mod_mult2_eq)
  then show ?case
    by (simp add: Suc digit_val_digit_char)
qed

lemma num_of_pad: "0 < w \<Longrightarrow> n < 10 ^ w \<Longrightarrow> num_of (pad w n) = Some n"
  by (cases w) (simp_all add: num_of_def list_all_pad foldl_pad del: pad.simps, auto)


lemma num_of_pad2: "n < 100 \<Longrightarrow> num_of (pad 2 n) = Some n"
  using num_of_pad [of 2 n] by simp

lemma num_of_pad4: "n < 10000 \<Longrightarrow> num_of (pad 4 n) = Some n"
  using num_of_pad [of 4 n] by simp

lemma num_of_pad6: "n < 1000000 \<Longrightarrow> num_of (pad 6 n) = Some n"
  using num_of_pad [of 6 n] by simp

lemma parse_fraction_printed:
  assumes "us < 1000000" and "r = [] \<or> hd r \<noteq> CHR ''.''"
  shows "parse_fraction ((if us \<noteq> 0 then ''.'' @ pad 6 us else []) @ r) = Some (us, r)"
proof (cases "us = 0")
  case True
  with assms(2) show ?thesis
    by (cases r) (simp_all add: parse_fraction_def)
next
  case False
  with assms(1) show ?thesis
    by (simp add: parse_fraction_def num_of_pad6 del: pad.simps)
qed

lemma offset_split:
  fixes a :: nat
  shows "((a div 3600000000 * 60 + a mod 3600000000 div 60000000) * 60
            + a mod 3600000000 mod 60000000 div 1000000) * 1000000
          + a mod 3600000000 mod 60000000 mod 1000000 = a"
proof -
  define b where "b = a mod 3600000000"
  define c where "c = b mod 60000000"
  have 1: "a div 3600000000 * 3600000000 + b = a"
    unfolding b_def by (rule div_mult_mod_eq)
  have 2: "b div 60000000 * 60000000 + c = b"
    unfolding c_def by (rule div_mult_mod_eq)
  have 3: "c div 1000000 * 1000000 + c mod 1000000 = c"
    by (rule div_mult_mod_eq)
  have "((a div 3600000000 * 60 + b div 60000000) * 60 + c div 1000000) * 1000000 + c mod 1000000
        = a div 3600000000 * 3600000000 + (b div 60000000 * 60000000 + (c div 1000000 * 1000000 + c mod 1000000))"
    by (simp add: algebra_simps)
  also have "\<dots> = a"
    by (simp only: 1 2 3)
  finally show ?thesis
    unfolding b_def c_def .
qed

lemma offset_regroup:
  fixes x y z w t :: int
  assumes "((x * 60 + y) * 60 + z) * 1000000 + w = t"
  shows "3600000000 * x + 60000000 * y + z * 1000000 + w = t"
  unfolding assms [symmetric] by (simp add: algebra_simps)

lemma offset_split_int:
  fixes a :: nat
  shows "3600000000 * int (a div 3600000000) + 60000000 * int (a mod 3600000000 div 60000000) +
               int (a mod 3600000000 mod 60000000 div 1000000) * 1000000 +
               int (a mod 3600000000 mod 60000000 mod 1000000) = int a"
proof -
  have "int (((a div 3600000000 * 60 + a mod 3600000000 div 60000000) * 60
            + a mod 3600000000 mod 60000000 div 1000000) * 1000000
          + a mod 3600000000 mod 60000000 mod 1000000) = int a"
    by (simp only: offset_split)
  then have "((int (a div 3600000000) * 60 + int (a mod 3600000000 div 60000000)) * 60
             + int (a mod 3600000000 mod 60000000 div 1000000)) * 1000000
           + int (a mod 3600000000 mod 60000000 mod 1000000) = int a"
    by (simp only: of_nat_add of_nat_mult of_nat_numeral)
  then show ?thesis
    by (rule offset_regroup)
qed

lemma parse_offset_seconds_printed:
  assumes "ss < 60000000"
  shows "parse_offset_seconds
           (if ss \<noteq> 0
            then '':'' @ pad 2 (ss div 1000000) @
                 (if ss mod 1000000 \<noteq> 0 then ''.'' @ pad 6 (ss mod 1000000) else [])
            else []) = Some (ss div 1000000, ss mod 1000000)"
proof (cases "ss = 0")
  case True
  then show ?thesis by (simp add: parse_offset_seconds_def)
next
  case False
  have pf: "parse_fraction ((if ss mod 1000000 \<noteq> 0 then ''.'' @ pad 6 (ss mod 1000000) else []) @ [])
              = Some (ss mod 1000000, [])"
    by (rule parse_fraction_printed) simp_all
  have lt: "ss div 1000000 < 100"
    using assms by simp
  from False lt pf show ?thesis
    by (simp add: parse_offset_seconds_def num_of_pad2 del: pad.simps)
qed

lemma parse_offset_printed:
  assumes "valid_offset tz"
  shows "parse_offset (format_offset tz) = Some tz"
proof (cases tz)
  case None
  then show ?thesis by (simp add: parse_offset_def format_offset_def)
next
  case (Some off)
  define a where "a = nat \<bar>off\<bar>"
  define hh where "hh = a div 3600000000"
  define mm where "mm = a mod 3600000000 div 60000000"
  define ss where "ss = a mod 3600000000 mod 60000000"
  define tl_str where "tl_str = (if ss \<noteq> 0
               then '':'' @ pad 2 (ss div 1000000) @
                    (if ss mod 1000000 \<noteq> 0 then ''.'' @ pad 6 (ss mod 1000000) else [])
               else [])"
  define sg where "sg = (if off < 0 then CHR ''-'' else CHR ''+'')"
  define r where "r = pad 2 hh @ '':'' @ pad 2 mm @ tl_str"
  have "- 86400000000 < off \<and> off < 86400000000"
    using assms Some by (simp add: valid_offset_def day_micros_def)
  then have a_lt: "a < 86400000000"
    unfolding a_def by linarith
  have hh_lt: "hh < 100" and mm_lt: "mm < 60" and ss_lt: "ss < 60000000"
    using a_lt by (simp_all add: hh_def mm_def ss_def)
  have fmt: "format_offset tz = sg # r"
    by (simp add: Some format_offset_def Let_def a_def hh_def mm_def ss_def tl_str_def sg_def
        r_def del: pad.simps)
  have total: "3600000000 * int hh + 60000000 * int mm + int (ss div 1000000) * 1000000
                 + int (ss mod 1000000) = int a"
    unfolding hh_def mm_def ss_def by (rule offset_split_int)
  have tail: "parse_offset_seconds tl_str = Some (ss div 1000000, ss mod 1000000)"
    unfolding tl_str_def using ss_lt by (rule parse_offset_seconds_printed)
  have r1: "length r \<ge> 5" and r2: "r ! 2 = CHR '':''" and r3: "take 2 r = pad 2 hh"
    and r4: "take 2 (drop 3 r) = pad 2 mm" and r5: "drop 5 r = tl_str"
    by (simp_all add: r_def nth_append del: pad.simps)
  have sgn: "(if sg = CHR ''-'' then - int a else int a) = off"
    by (simp add: sg_def a_def)
  have sg_cases: "sg = CHR ''+'' \<or> sg = CHR ''-''"
    by (simp add: sg_def)
  have h1: "num_of (pad 2 hh) = Some hh" and h2: "num_of (pad 2 mm) = Some mm"
    using hh_lt mm_lt by (simp_all add: num_of_pad2 del: pad.simps)
  have "ss div 1000000 < 60"
    using ss_lt by simp
  with sg_cases assms show ?thesis
    unfolding fmt parse_offset_def
    by (simp add: r1 r2 r3 r4 r5 h1 h2 tail total sgn mm_lt Some del: pad.simps)
qed


lemma format_offset_head: "format_offset tz = [] \<or> hd (format_offset tz) \<noteq> CHR ''.''"
  by (cases tz) (simp_all add: format_offset_def Let_def del: pad.simps)

lemma fromisoformat_isoformat:
  assumes "valid_datetime dt"
  shows "fromisoformat (isoformat dt) = Some dt"
proof -
  define rest where "rest = (if microsecond dt \<noteq> 0 then ''.'' @ pad 6 (microsecond dt) else [])
                              @ format_offset (tzinfo dt)"
  define s where "s = pad 4 (year dt) @ ''-'' @ pad 2 (month dt) @ ''-'' @ pad 2 (day dt) @ ''T'' @
     pad 2 (hour dt) @ '':'' @ pad 2 (minute dt) @ '':'' @ pad 2 (second dt) @ rest"
  have iso: "isoformat dt = s"
    by (simp add: isoformat_def s_def rest_def del: pad.simps)
  have bounds: "year dt < 10000" "month dt < 100" "day dt < 100" "hour dt < 100"
    "minute dt < 100" "second dt < 100" "microsecond dt < 1000000" "valid_offset (tzinfo dt)"
    using assms by (auto simp: valid_datetime_def days_in_month_def split: if_splits)
  have shape: "\<not> (length s < 19 \<or> s ! 4 \<noteq> CHR ''-'' \<or> s ! 7 \<noteq> CHR ''-'' \<or>
         s ! 13 \<noteq> CHR '':'' \<or> s ! 16 \<noteq> CHR '':'')"
    by (simp add: s_def nth_append del: pad.simps)
  have f1: "take 4 s = pad 4 (year dt)" and f2: "take 2 (drop 5 s) = pad 2 (month dt)"
    and f3: "take 2 (drop 8 s) = pad 2 (day dt)" and f4: "take 2 (drop 11 s) = pad 2 (hour dt)"
    and f5: "take 2 (drop 14 s) = pad 2 (minute dt)" and f6: "take 2 (drop 17 s) = pad 2 (second dt)"
    and f7: "drop 19 s = rest"
    by (simp_all add: s_def del: pad.simps)
  have pf: "parse_fraction rest = Some (microsecond dt, format_offset (tzinfo dt))"
    unfolding rest_def using bounds(7) format_offset_head by (rule parse_fraction_printed)
  have po: "parse_offset (format_offset (tzinfo dt)) = Some (tzinfo dt)"
    using bounds(8) by (rule parse_offset_printed)
  have nums: "num_of (pad 4 (year dt)) = Some (year dt)" "num_of (pad 2 (month dt)) = Some (month dt)"
    "num_of (pad 2 (day dt)) = Some (day dt)" "num_of (pad 2 (hour dt)) = Some (hour dt)"
    "num_of (pad 2 (minute dt)) = Some (minute dt)" "num_of (pad 2 (second dt)) = Some (second dt)"
    using bounds by (simp_all add: num_of_pad2 num_of_pad4 del: pad.simps)
  have rec: "\<lparr>year = year dt, month = month dt, day = day dt, hour = hour dt, minute = minute dt,
             second = second dt, microsecond = microsecond dt, tzinfo = tzinfo dt\<rparr> = dt"
    by simp
  show ?thesis
    unfolding iso fromisoformat_def
    using shape assms
    by (simp add: f1 f2 f3 f4 f5 f6 f7 pf po nums rec del: pad.simps)
qed



section \<open>Facts about the checkpoint store\<close>

lemma dict_get_dict_set_same: "dict_get (dict_set d k v) k = Some v"
  by (induction d) (auto simp: dict_get_def)

lemma dict_get_dict_set_other: "k' \<noteq> k \<Longrightarrow> dict_get (dict_set d k v) k' = dict_get d k'"
  by (induction d) (auto simp: dict_get_def)

lemma isoformat_not_empty: "isoformat dt \<noteq> []"
  by (simp add: isoformat_def)

lemma utc_micros_replace_tzinfo_utc:
  "tzinfo dt = None \<Longrightarrow> utc_micros (replace_tzinfo_utc dt) = utc_micros dt"
  by (simp add: utc_micros_def replace_tzinfo_utc_def local_micros_def)

lemma utc_micros_attach_utc:
  "utc_micros (if tzinfo dt = None then replace_tzinfo_utc dt else dt) = utc_micros dt"
  by (simp add: utc_micros_replace_tzinfo_utc)

lemma is_aware_attach_utc:
  "is_aware (if tzinfo dt = None then replace_tzinfo_utc dt else dt)"
  by (simp add: is_aware_def replace_tzinfo_utc_def)

lemma valid_stamp: "s < 60 \<Longrightarrow> valid_datetime (stamp s)"
  by (simp add: stamp_def valid_datetime_def days_in_month_def valid_offset_def day_micros_def)

lemma utc_micros_stamp: "utc_micros (stamp s) = (63839750400 + int s) * 1000000"
  by (simp add: stamp_def utc_micros_def local_micros_def ymd2ord_def days_before_year_def
      days_before_month_def)

lemma get_stored_isoformat:
  assumes "timestamp_file tr = Holds (JDict data)"
    and "dict_get data (chat_key c) = Some (JStr (isoformat T))"
    and "valid_datetime T"
  shows "get_last_check_timestamp tr c = Inr (Some T)"
  using assms
  by (simp add: get_last_check_timestamp_def load_timestamp_data_def isoformat_not_empty
      fromisoformat_isoformat)

lemma valid_aware_date: "valid_datetime t \<Longrightarrow> valid_datetime (aware_date t)"
  by (simp add: aware_date_def valid_datetime_def replace_tzinfo_utc_def valid_offset_def
      day_micros_def)

lemma is_aware_aware_date: "is_aware (aware_date t)"
  by (simp add: aware_date_def is_aware_def replace_tzinfo_utc_def)

lemma aware_date_idem: "aware_date (aware_date t) = aware_date t"
  by (simp add: aware_date_def replace_tzinfo_utc_def)

lemma utc_micros_aware_date: "utc_micros (aware_date t) = utc_micros t"
  by (simp add: aware_date_def utc_micros_replace_tzinfo_utc)

lemma update_timestamp_given:
  assumes "load_timestamp_data tr = JDict data"
  shows "update_last_check_timestamp now tr c (Some t) =
           Inr (save_timestamp_data tr
                  (JDict (dict_set data (chat_key c) (JStr (isoformat (aware_date t))))))"
  using assms by (simp add: update_last_check_timestamp_def aware_date_def Let_def)

lemma update_timestamp_now:
  assumes "load_timestamp_data tr = JDict data"
  shows "update_last_check_timestamp now tr c None =
           Inr (save_timestamp_data tr
                  (JDict (dict_set data (chat_key c) (JStr (isoformat (aware_date now))))))"
  using assms by (simp add: update_last_check_timestamp_def aware_date_def Let_def)

lemma get_after_save:
  assumes "timestamp_write tr = Write_ok" and "valid_datetime d"
  shows "get_last_check_timestamp
           (save_timestamp_data tr (JDict (dict_set data (chat_key c) (JStr (isoformat d))))) c
         = Inr (Some d)"
  using assms
  by (simp add: get_last_check_timestamp_def save_timestamp_data_def write_json_def
      load_timestamp_data_def dict_get_dict_set_same isoformat_not_empty fromisoformat_isoformat)

lemma save_timestamp_data_ok:
  assumes "timestamp_write tr = Write_ok"
  shows "load_timestamp_data (save_timestamp_data tr j) = j"
    and "timestamp_write (save_timestamp_data tr j) = Write_ok"
  using assms
  by (simp_all add: save_timestamp_data_def write_json_def load_timestamp_data_def)

lemma get_ok_loads_dict:
  assumes "get_last_check_timestamp tr c = Inr r"
  shows "\<exists>data. load_timestamp_data tr = JDict data"
  using assms by (cases "load_timestamp_data tr") (simp_all add: get_last_check_timestamp_def)

lemma should_process_ok_loads_dict:
  assumes "should_process_message tr d c = Inr b"
  shows "\<exists>data. load_timestamp_data tr = JDict data"
proof (cases "get_last_check_timestamp tr c")
  case (Inl a)
  with assms show ?thesis by (simp add: should_process_message_def)
next
  case (Inr r)
  then show ?thesis by (rule get_ok_loads_dict)
qed

lemma should_process_message_eq:
  "(get_last_check_timestamp tr c = Inr (Some T) \<longrightarrow>
      should_process_message tr t c = Inr (utc_micros t > utc_micros T)) \<and>
   (get_last_check_timestamp tr c = Inr None \<longrightarrow>
      should_process_message tr t c = Inr True)"
  by (simp add: should_process_message_def datetime_gt_def Let_def
      utc_micros_attach_utc is_aware_attach_utc)

text \<open>
  Claim C2. When the checkpoint read for a chat is \<open>T\<close>, \<open>should_process_message\<close>
  answers whether the message time is strictly later than \<open>T\<close>: false for every
  \<open>t \<le> T\<close>, true for every \<open>t > T\<close>. Times are compared as instants
  (\<open>utc_micros\<close>), a naive time being read as UTC, and the comparison never raises.
  When no checkpoint is read for the chat, the answer is true for every \<open>t\<close>.
\<close>

theorem should_process_message_after_checkpoint:
  "(get_last_check_timestamp tr c = Inr (Some T) \<longrightarrow>
      should_process_message tr t c = Inr (utc_micros t > utc_micros T)) \<and>
   (get_last_check_timestamp tr c = Inr None \<longrightarrow>
      should_process_message tr t c = Inr True)"
  by (rule should_process_message_eq)

theorem should_process_message_after_checkpoint_witness:
  "get_last_check_timestamp
     \<lparr>timestamp_file = Holds (JDict [(''me'', JStr (isoformat (stamp 20)))]),
      timestamp_write = Write_ok\<rparr> (Str_chat ''me'') = Inr (Some (stamp 20)) \<and>
   should_process_message
     \<lparr>timestamp_file = Holds (JDict [(''me'', JStr (isoformat (stamp 20)))]),
      timestamp_write = Write_ok\<rparr> (stamp 10) (Str_chat ''me'') = Inr False \<and>
   should_process_message
     \<lparr>timestamp_file = Holds (JDict [(''me'', JStr (isoformat (stamp 20)))]),
      timestamp_write = Write_ok\<rparr> (stamp 20) (Str_chat ''me'') = Inr False \<and>
   should_process_message
     \<lparr>timestamp_file = Holds (JDict [(''me'', JStr (isoformat (stamp 20)))]),
      timestamp_write = Write_ok\<rparr> (stamp 30) (Str_chat ''me'') = Inr True \<and>
   get_last_check_timestamp
     \<lparr>timestamp_file = Holds (JDict []), timestamp_write = Write_ok\<rparr> (Str_chat ''me'')
     = Inr None \<and>
   should_process_message
     \<lparr>timestamp_file = Holds (JDict []), timestamp_write = Write_ok\<rparr> (stamp 10)
     (Str_chat ''me'') = Inr True"
proof -
  let ?tr = "\<lparr>timestamp_file = Holds (JDict [(''me'', JStr (isoformat (stamp 20)))]),
              timestamp_write = Write_ok\<rparr>"
  let ?empty = "\<lparr>timestamp_file = Holds (JDict []), timestamp_write = Write_ok\<rparr>"
  let ?c = "Str_chat ''me''"
  have p1: "timestamp_file ?tr = Holds (JDict [(''me'', JStr (isoformat (stamp 20)))])"
    by simp
  have p2: "dict_get [(''me'', JStr (isoformat (stamp 20)))] (chat_key ?c)
              = Some (JStr (isoformat (stamp 20)))"
    by (simp add: chat_key_def dict_get_def)
  have p3: "valid_datetime (stamp 20)"
    by (simp add: valid_stamp)
  have g: "get_last_check_timestamp ?tr ?c = Inr (Some (stamp 20))"
    by (rule get_stored_isoformat [OF p1 p2 p3])
  have g0: "get_last_check_timestamp ?empty ?c = Inr None"
    by (simp add: get_last_check_timestamp_def load_timestamp_data_def dict_get_def)
  have w1: "should_process_message ?tr (stamp 10) ?c = Inr False"
    using g should_process_message_after_checkpoint [of ?tr ?c "stamp 20" "stamp 10"]
    by (simp add: utc_micros_stamp)
  have w2: "should_process_message ?tr (stamp 20) ?c = Inr False"
    using g should_process_message_after_checkpoint [of ?tr ?c "stamp 20" "stamp 20"]
    by (simp add: utc_micros_stamp)
  have w3: "should_process_message ?tr (stamp 30) ?c = Inr True"
    using g should_process_message_after_checkpoint [of ?tr ?c "stamp 20" "stamp 30"]
    by (simp add: utc_micros_stamp)
  have w4: "should_process_message ?empty (stamp 10) ?c = Inr True"
    using g0 should_process_message_after_checkpoint [of ?empty ?c "stamp 20" "stamp 10"]
    by simp
  show ?thesis
    using g w1 w2 w3 g0 w4 by blast
qed

lemma get_last_check_timestamp_not_an_object:
  assumes "timestamp_file tr = Holds j" and "\<forall>data. j \<noteq> JDict data"
  shows "get_last_check_timestamp tr c = Inl AttributeError"
  using assms by (cases j) (simp_all add: get_last_check_timestamp_def load_timestamp_data_def)

text \<open>
  The cases that the handlers of \<open>timestamp_tracker.py\<close> do cover: a file that is
  missing, that cannot be opened or that \<open>json.load\<close> rejects reads as the empty
  object, and an entry such as \<open>"yesterday"\<close>, which is no timestamp in any form,
  reads as no checkpoint.
\<close>

lemma unopenable_checkpoint_file_means_no_checkpoint:
  assumes "timestamp_file tr = Missing \<or> timestamp_file tr = Unreadable \<or>
           timestamp_file tr = Garbled"
  shows "load_timestamp_data tr = JDict []"
    and "get_last_check_timestamp tr c = Inr None"
    and "should_process_message tr t c = Inr True"
  using assms
  by (auto simp: load_timestamp_data_def get_last_check_timestamp_def
      should_process_message_def dict_get_def)

lemma unparsable_entry_means_no_checkpoint:
  "get_last_check_timestamp
     \<lparr>timestamp_file = Holds (JDict [(''me'', JStr ''yesterday'')]), timestamp_write = Write_ok\<rparr>
     (Str_chat ''me'') = Inr None"
  by (simp add: get_last_check_timestamp_def load_timestamp_data_def dict_get_def chat_key_def
      fromisoformat_def)

text \<open>
  Claim C9. Round trip of a checkpoint. On a store whose file is readable as a JSON
  object (or missing, unreadable or garbled, which load as the empty object) and whose
  write succeeds, \<open>update_last_check_timestamp c t\<close> followed by
  \<open>get_last_check_timestamp c\<close> returns \<open>t\<close> itself when \<open>t\<close> is aware, and
  \<open>t\<close> with UTC attached when \<open>t\<close> is naive; the value read back is aware.
  The timestamp passes through \<open>isoformat\<close> and \<open>fromisoformat\<close>.
\<close>

theorem checkpoint_round_trip:
  assumes "load_timestamp_data tr = JDict data"
    and "timestamp_write tr = Write_ok"
    and "valid_datetime t"
  shows "case update_last_check_timestamp now tr c (Some t) of
           Inl e \<Rightarrow> False
         | Inr tr' \<Rightarrow>
             get_last_check_timestamp tr' c
               = Inr (Some (if is_aware t then t else replace_tzinfo_utc t)) \<and>
             is_aware (if is_aware t then t else replace_tzinfo_utc t)"
proof -
  let ?t = "if tzinfo t = None then replace_tzinfo_utc t else t"
  have v: "valid_datetime ?t"
    using assms(3)
    by (simp add: valid_datetime_def replace_tzinfo_utc_def valid_offset_def day_micros_def)
  have "fromisoformat (isoformat ?t) = Some ?t"
    using v by (rule fromisoformat_isoformat)
  then show ?thesis
    using assms(1,2)
    by (simp add: update_last_check_timestamp_def get_last_check_timestamp_def
        save_timestamp_data_def write_json_def load_timestamp_data_def Let_def
        dict_get_dict_set_same isoformat_not_empty is_aware_def)
       (simp add: replace_tzinfo_utc_def)
qed

theorem checkpoint_round_trip_witness:
  "(case update_last_check_timestamp (stamp 50)
          \<lparr>timestamp_file = Holds (JDict [(''me'', JStr (isoformat (stamp 20)))]),
           timestamp_write = Write_ok\<rparr> (Int_chat 12345) (Some (stamp 30)) of
      Inl e \<Rightarrow> False
    | Inr tr' \<Rightarrow> get_last_check_timestamp tr' (Int_chat 12345) = Inr (Some (stamp 30))) \<and>
   (case update_last_check_timestamp (stamp 50)
          \<lparr>timestamp_file = Missing, timestamp_write = Write_ok\<rparr> (Str_chat ''me'')
          (Some ((stamp 30)\<lparr>tzinfo := None\<rparr>)) of
      Inl e \<Rightarrow> False
    | Inr tr' \<Rightarrow> get_last_check_timestamp tr' (Str_chat ''me'') = Inr (Some (stamp 30)))"
proof -
  have v: "valid_datetime (stamp 30)" "valid_datetime ((stamp 30)\<lparr>tzinfo := None\<rparr>)"
    by (simp_all add: stamp_def valid_datetime_def days_in_month_def valid_offset_def
        day_micros_def)
  have a: "is_aware (stamp 30)" "\<not> is_aware ((stamp 30)\<lparr>tzinfo := None\<rparr>)"
    "replace_tzinfo_utc ((stamp 30)\<lparr>tzinfo := None\<rparr>) = stamp 30"
    by (simp_all add: is_aware_def stamp_def replace_tzinfo_utc_def)
  have l1: "load_timestamp_data
              \<lparr>timestamp_file = Holds (JDict [(''me'', JStr (isoformat (stamp 20)))]),
               timestamp_write = Write_ok\<rparr> = JDict [(''me'', JStr (isoformat (stamp 20)))]"
    and l2: "load_timestamp_data \<lparr>timestamp_file = Missing, timestamp_write = Write_ok\<rparr>
               = JDict []"
    by (simp_all add: load_timestamp_data_def)
  show ?thesis
    using checkpoint_round_trip [OF l1 _ v(1), where now = "stamp 50" and c = "Int_chat 12345"]
      checkpoint_round_trip [OF l2 _ v(2), where now = "stamp 50" and c = "Str_chat ''me''"]
    by (simp add: a split: sum.splits)
qed



section \<open>Facts about the coordinator\<close>

lemma append_articles_list:
  "append_articles e (JList xs) articles = Inr (JList (xs @ map JDict articles))"
  by (induction articles arbitrary: xs)
     (simp_all add: list_append_def create_odt_document_def)

lemma handle_new_message_accepted:
  assumes "msg_sender m = Inr s"
    and "should_process_message (timestamp_tracker w) (aware_date (msg_date m))
           (Str_chat (tracking_chat_id chat)) = Inr True"
    and "load_existing_publications w = Inr (JList xs)"
  shows "handle_new_message e chat w m =
           (let w1 = (if message_batch e chat m s \<noteq> []
                      then fst (save_publications w (JList (xs @ message_batch e chat m s)))
                      else w)
            in case update_last_check_timestamp (utc_now e) (timestamp_tracker w1)
                      (Str_chat (tracking_chat_id chat)) (Some (aware_date (msg_date m))) of
                 Inl err \<Rightarrow> w1
               | Inr tr \<Rightarrow> w1\<lparr>timestamp_tracker := tr\<rparr>)"
proof (cases "process_message_content e (case msg_text m of None \<Rightarrow> [] | Some t \<Rightarrow> t) s")
  case None
  with assms show ?thesis
    by (simp add: handle_new_message_def handle_new_message_body_def Let_def
        append_articles_list message_batch_def analysis_records_def split: sum.splits)
next
  case (Some a)
  show ?thesis
  proof (cases "a = []")
    case True
    with Some assms show ?thesis
      by (simp add: handle_new_message_def handle_new_message_body_def Let_def
          append_articles_list message_batch_def analysis_records_def split: sum.splits)
  next
    case False
    with Some assms show ?thesis
      by (simp add: handle_new_message_def handle_new_message_body_def Let_def
          append_articles_list message_batch_def analysis_records_def list_append_def
          split: sum.splits)
  qed
qed


lemma save_publications_tracker [simp]:
  "timestamp_tracker (fst (save_publications w j)) = timestamp_tracker w"
  by (simp add: save_publications_def split: prod.splits)

lemma save_publications_file:
  "publications_file (fst (save_publications w j))
     = fst (write_json (publications_write w) (publications_file w) j)"
  by (simp add: save_publications_def split: prod.splits)

lemma save_publications_write [simp]:
  "publications_write (fst (save_publications w j)) = publications_write w"
  by (simp add: save_publications_def split: prod.splits)

lemma store_is_list_after_save:
  assumes "store_is_list w"
  shows "store_is_list (fst (save_publications w (JList ys)))"
  using assms
  by (cases "publications_write w")
     (auto simp: store_is_list_def load_existing_publications_def save_publications_file
        write_json_def split: file_state.splits sum.splits json.splits)

lemma store_is_list_tracker_update [simp]:
  "store_is_list (w\<lparr>timestamp_tracker := tr\<rparr>) = store_is_list w"
  by (simp add: store_is_list_def load_existing_publications_def)

lemma store_is_listE:
  assumes "store_is_list w"
  obtains xs where "load_existing_publications w = Inr (JList xs)"
  using assms by (auto simp: store_is_list_def split: sum.splits json.splits)

text \<open>One accepted message: the state it leaves.\<close>

lemma handle_new_message_step:
  assumes sender: "msg_sender m = Inr s"
    and accepted: "should_process_message (timestamp_tracker w) (aware_date (msg_date m))
           (Str_chat (tracking_chat_id chat)) = Inr True"
    and store: "store_is_list w"
    and wr: "timestamp_write (timestamp_tracker w) = Write_ok"
    and valid: "valid_datetime (msg_date m)"
  shows "get_last_check_timestamp (timestamp_tracker (handle_new_message e chat w m))
           (Str_chat (tracking_chat_id chat)) = Inr (Some (aware_date (msg_date m)))"
    and "store_is_list (handle_new_message e chat w m)"
    and "timestamp_write (timestamp_tracker (handle_new_message e chat w m)) = Write_ok"
    and "publications_write (handle_new_message e chat w m) = publications_write w"
proof -
  obtain xs where xs: "load_existing_publications w = Inr (JList xs)"
    using store by (rule store_is_listE)
  obtain data where data: "load_timestamp_data (timestamp_tracker w) = JDict data"
    using should_process_ok_loads_dict [OF accepted] by blast
  define w1 where "w1 = (if message_batch e chat m s \<noteq> []
                      then fst (save_publications w (JList (xs @ message_batch e chat m s)))
                      else w)"
  define tr where "tr = save_timestamp_data (timestamp_tracker w)
      (JDict (dict_set data (chat_key (Str_chat (tracking_chat_id chat)))
         (JStr (isoformat (aware_date (aware_date (msg_date m)))))))"
  have t1: "timestamp_tracker w1 = timestamp_tracker w"
    by (simp add: w1_def)
  have upd: "update_last_check_timestamp (utc_now e) (timestamp_tracker w1)
                (Str_chat (tracking_chat_id chat)) (Some (aware_date (msg_date m))) = Inr tr"
    unfolding t1 tr_def using data by (rule update_timestamp_given)
  have h: "handle_new_message e chat w m = w1\<lparr>timestamp_tracker := tr\<rparr>"
    using handle_new_message_accepted [OF sender accepted xs, of e] upd
    by (simp add: w1_def Let_def)
  have s1: "store_is_list w1"
    using store by (simp add: w1_def store_is_list_after_save)
  show "get_last_check_timestamp (timestamp_tracker (handle_new_message e chat w m))
           (Str_chat (tracking_chat_id chat)) = Inr (Some (aware_date (msg_date m)))"
    using get_after_save [OF wr valid_aware_date [OF valid], of data "Str_chat (tracking_chat_id chat)"]
    by (simp add: h tr_def aware_date_idem)
  show "store_is_list (handle_new_message e chat w m)"
    using s1 by (simp add: h)
  show "timestamp_write (timestamp_tracker (handle_new_message e chat w m)) = Write_ok"
    using wr by (simp add: h tr_def save_timestamp_data_ok)
  show "publications_write (handle_new_message e chat w m) = publications_write w"
    by (simp add: h w1_def)
qed

lemma dict_set_nonempty [simp]: "dict_set d k v \<noteq> []"
  by (cases d) (auto split: if_splits)

lemma summarize_message_nonempty: "summarize_message p r t s \<noteq> []"
  by (simp add: summarize_message_def split: llm_response.splits json.splits)

lemma process_message_content_nonempty:
  "process_message_content e t s = Some a \<Longrightarrow> a \<noteq> []"
  by (auto simp: process_message_content_def summarize_message_nonempty split: if_splits)

lemma process_message_content_some:
  "strip t \<noteq> [] \<Longrightarrow> \<exists>a. process_message_content e t s = Some a"
  by (simp add: process_message_content_def)

lemma analysis_records_nonempty:
  assumes "msg_text m = Some t" and "strip t \<noteq> []"
  shows "analysis_records e chat m s \<noteq> []"
proof -
  obtain a where a: "process_message_content e t s = Some a"
    using process_message_content_some [OF assms(2)] by blast
  then have "a \<noteq> []"
    by (rule process_message_content_nonempty)
  with a assms(1) show ?thesis
    by (simp add: analysis_records_def)
qed

lemma handle_new_message_publications:
  assumes "msg_sender m = Inr s"
    and "should_process_message (timestamp_tracker w) (aware_date (msg_date m))
           (Str_chat (tracking_chat_id chat)) = Inr True"
    and "load_existing_publications w = Inr (JList xs)"
  shows "publications_file (handle_new_message e chat w m) =
           (if message_batch e chat m s = [] then publications_file w
            else fst (write_json (publications_write w) (publications_file w)
                        (JList (xs @ message_batch e chat m s))))"
  unfolding handle_new_message_accepted [OF assms]
  by (simp add: Let_def save_publications_file split: sum.splits)

lemma tracking_chat_id_me: "tracking_chat_id ''me'' = ''me''"
  by (simp add: tracking_chat_id_def)

lemma strip_hello: "strip ''hello'' = ''hello''"
  by (simp add: strip_def is_space_def)

lemma extract_urls_hello: "extract_urls_from_text ''hello'' = []"
  by (simp add: extract_urls_from_text_def match_url_def)

lemma fresh_world_accepts:
  "should_process_message (timestamp_tracker (fresh_world wo)) d (Str_chat ''me'') = Inr True"
proof -
  have "get_last_check_timestamp (timestamp_tracker (fresh_world wo)) (Str_chat ''me'') = Inr None"
    by (simp add: fresh_world_def get_last_check_timestamp_def load_timestamp_data_def dict_get_def)
  then show ?thesis
    using should_process_message_eq by blast
qed

lemma corrupt_checkpoint_stops_handle_new_message:
  "handle_new_message_body quiet_env ''me''
     \<lparr>publications_file = Missing, publications_write = Write_ok,
      timestamp_tracker = \<lparr>timestamp_file = Holds (JList []), timestamp_write = Write_ok\<rparr>\<rparr>
     (text_message 10 ''hello'')
     = (\<lparr>publications_file = Missing, publications_write = Write_ok,
         timestamp_tracker = \<lparr>timestamp_file = Holds (JList []), timestamp_write = Write_ok\<rparr>\<rparr>,
        Some AttributeError)"
proof -
  have "should_process_message
          \<lparr>timestamp_file = Holds (JList []), timestamp_write = Write_ok\<rparr>
          (aware_date (stamp 10)) (Str_chat ''me'') = Inl AttributeError"
    by (simp add: should_process_message_def get_last_check_timestamp_def load_timestamp_data_def)
  then show ?thesis
    by (simp add: handle_new_message_body_def text_message_def tracking_chat_id_me)
qed

text \<open>
  Claim C7, on the code of \<open>timestamp_tracker.py\<close>. \<open>_load_timestamp_data\<close>
  catches every exception of opening and decoding the file, and
  \<open>get_last_check_timestamp\<close> catches the \<open>ValueError\<close> of a string that is no
  timestamp; neither looks at the shape of what was decoded. A checkpoint file that holds
  \<open>[]\<close> or \<open>null\<close> makes \<open>data.get(key)\<close> raise \<open>AttributeError\<close>, and a file
  that holds \<open>{"me": 5}\<close> makes \<open>fromisoformat(5)\<close> raise \<open>TypeError\<close>: reading the
  checkpoint raises and \<open>should_process_message\<close> raises with it. On such a file
  \<open>handle_new_message\<close> stops at the exception (the lemma above) and leaves the
  publication file and the checkpoint as they were, so the message \<open>hello\<close> is not
  processed, and \<open>process_recent_messages\<close> ends with the exception.
\<close>

theorem corrupt_checkpoint_file_raises:
  "load_timestamp_data \<lparr>timestamp_file = Holds (JList []), timestamp_write = Write_ok\<rparr>
     = JList [] \<and>
   get_last_check_timestamp \<lparr>timestamp_file = Holds (JList []), timestamp_write = Write_ok\<rparr>
     (Str_chat ''me'') = Inl AttributeError \<and>
   should_process_message \<lparr>timestamp_file = Holds (JList []), timestamp_write = Write_ok\<rparr>
     (stamp 10) (Str_chat ''me'') = Inl AttributeError \<and>
   get_last_check_timestamp \<lparr>timestamp_file = Holds JNull, timestamp_write = Write_ok\<rparr>
     No_chat = Inl AttributeError \<and>
   should_process_message \<lparr>timestamp_file = Holds JNull, timestamp_write = Write_ok\<rparr>
     (stamp 10) No_chat = Inl AttributeError \<and>
   get_last_check_timestamp
     \<lparr>timestamp_file = Holds (JDict [(''me'', JInt 5)]), timestamp_write = Write_ok\<rparr>
     (Str_chat ''me'') = Inl TypeError \<and>
   should_process_message
     \<lparr>timestamp_file = Holds (JDict [(''me'', JInt 5)]), timestamp_write = Write_ok\<rparr>
     (stamp 10) (Str_chat ''me'') = Inl TypeError \<and>
   handle_new_message quiet_env ''me''
     \<lparr>publications_file = Missing, publications_write = Write_ok,
      timestamp_tracker = \<lparr>timestamp_file = Holds (JList []), timestamp_write = Write_ok\<rparr>\<rparr>
     (text_message 10 ''hello'')
     = \<lparr>publications_file = Missing, publications_write = Write_ok,
        timestamp_tracker = \<lparr>timestamp_file = Holds (JList []), timestamp_write = Write_ok\<rparr>\<rparr> \<and>
   process_recent_messages quiet_env ''me''
     \<lparr>publications_file = Missing, publications_write = Write_ok,
      timestamp_tracker = \<lparr>timestamp_file = Holds (JList []), timestamp_write = Write_ok\<rparr>\<rparr>
     [text_message 10 ''hello''] 3 = Inl AttributeError"
proof -
  let ?lst = "\<lparr>timestamp_file = Holds (JList []), timestamp_write = Write_ok\<rparr>"
  let ?nul = "\<lparr>timestamp_file = Holds JNull, timestamp_write = Write_ok\<rparr>"
  let ?five = "\<lparr>timestamp_file = Holds (JDict [(''me'', JInt 5)]), timestamp_write = Write_ok\<rparr>"
  let ?w = "\<lparr>publications_file = Missing, publications_write = Write_ok,
             timestamp_tracker = ?lst\<rparr>"
  have l: "load_timestamp_data ?lst = JList []"
    by (simp add: load_timestamp_data_def)
  have g1: "get_last_check_timestamp ?lst (Str_chat ''me'') = Inl AttributeError"
    by (simp add: get_last_check_timestamp_def load_timestamp_data_def)
  have s1: "should_process_message ?lst (stamp 10) (Str_chat ''me'') = Inl AttributeError"
    by (simp add: should_process_message_def g1)
  have g2: "get_last_check_timestamp ?nul No_chat = Inl AttributeError"
    by (simp add: get_last_check_timestamp_def load_timestamp_data_def)
  have s2: "should_process_message ?nul (stamp 10) No_chat = Inl AttributeError"
    by (simp add: should_process_message_def g2)
  have g3: "get_last_check_timestamp ?five (Str_chat ''me'') = Inl TypeError"
    by (simp add: get_last_check_timestamp_def load_timestamp_data_def dict_get_def chat_key_def)
  have s3: "should_process_message ?five (stamp 10) (Str_chat ''me'') = Inl TypeError"
    by (simp add: should_process_message_def g3)
  have h: "handle_new_message quiet_env ''me'' ?w (text_message 10 ''hello'') = ?w"
    by (simp add: handle_new_message_def corrupt_checkpoint_stops_handle_new_message)
  have p: "process_recent_messages quiet_env ''me'' ?w [text_message 10 ''hello''] 3
             = Inl AttributeError"
    by (simp add: process_recent_messages_def tracking_chat_id_me g1)
  show ?thesis
    using l g1 s1 g2 s2 g3 s3 h p by blast
qed

text \<open>
  Claim C1, as the code has it. For a message that the coordinator accepts and whose
  sender lookup succeeds, on a publication file that reads as a list and a checkpoint
  store that can be written: the batch of the message is written with whatever outcome
  the write of the publication file has, and after that attempt the checkpoint of the
  chat is the time the message was sent, whether the write succeeded or not.
\<close>

theorem checkpoint_advanced_after_save_attempt:
  assumes "msg_sender m = Inr s"
    and "should_process_message (timestamp_tracker w) (aware_date (msg_date m))
           (Str_chat (tracking_chat_id chat)) = Inr True"
    and "load_existing_publications w = Inr (JList xs)"
    and "timestamp_write (timestamp_tracker w) = Write_ok"
    and "valid_datetime (msg_date m)"
  shows "publications_file (handle_new_message e chat w m) =
           (if message_batch e chat m s = [] then publications_file w
            else fst (write_json (publications_write w) (publications_file w)
                        (JList (xs @ message_batch e chat m s)))) \<and>
         get_last_check_timestamp (timestamp_tracker (handle_new_message e chat w m))
           (Str_chat (tracking_chat_id chat)) = Inr (Some (aware_date (msg_date m)))"
proof -
  have "store_is_list w"
    using assms(3) by (simp add: store_is_list_def)
  then show ?thesis
    using handle_new_message_step(1) [OF assms(1,2) _ assms(4,5)]
      handle_new_message_publications [OF assms(1,2,3)]
    by simp
qed

theorem checkpoint_advanced_after_save_attempt_witness:
  "publications_file (handle_new_message quiet_env ''me'' (fresh_world Write_interrupted)
       (text_message 10 ''hello'')) = Garbled \<and>
   get_last_check_timestamp
     (timestamp_tracker (handle_new_message quiet_env ''me'' (fresh_world Write_interrupted)
        (text_message 10 ''hello''))) (Str_chat ''me'') = Inr (Some (stamp 10))"
proof -
  have a1: "msg_sender (text_message 10 ''hello'') = Inr (JStr ''Ann'')"
    by (simp add: text_message_def)
  have a2: "should_process_message (timestamp_tracker (fresh_world Write_interrupted))
              (aware_date (msg_date (text_message 10 ''hello'')))
              (Str_chat (tracking_chat_id ''me'')) = Inr True"
    by (simp add: tracking_chat_id_me fresh_world_accepts)
  have a3: "load_existing_publications (fresh_world Write_interrupted) = Inr (JList [])"
    by (simp add: load_existing_publications_def fresh_world_def)
  have a4: "timestamp_write (timestamp_tracker (fresh_world Write_interrupted)) = Write_ok"
    by (simp add: fresh_world_def)
  have a5: "valid_datetime (msg_date (text_message 10 ''hello''))"
    by (simp add: text_message_def valid_stamp)
  have b: "message_batch quiet_env ''me'' (text_message 10 ''hello'') (JStr ''Ann'') \<noteq> []"
    by (simp add: message_batch_def analysis_records_nonempty [where t = "''hello''"]
        text_message_def strip_hello)
  have d: "aware_date (msg_date (text_message 10 ''hello'')) = stamp 10"
    by (simp add: text_message_def aware_date_def stamp_def)
  show ?thesis
    using checkpoint_advanced_after_save_attempt [OF a1 a2 a3 a4 a5, of quiet_env] b
    by (simp add: d tracking_chat_id_me write_json_def fresh_world_def)
qed

theorem checkpoint_advanced_though_write_failed:
  "get_last_check_timestamp (timestamp_tracker (fresh_world Write_denied)) (Str_chat ''me'')
     = Inr None \<and>
   message_batch quiet_env ''me'' (text_message 10 ''hello'') (JStr ''Ann'') \<noteq> [] \<and>
   \<not> snd (save_publications (fresh_world Write_denied)
            (JList (message_batch quiet_env ''me'' (text_message 10 ''hello'') (JStr ''Ann'')))) \<and>
   publications_file (handle_new_message quiet_env ''me'' (fresh_world Write_denied)
       (text_message 10 ''hello'')) = Missing \<and>
   get_last_check_timestamp
     (timestamp_tracker (handle_new_message quiet_env ''me'' (fresh_world Write_denied)
        (text_message 10 ''hello''))) (Str_chat ''me'') = Inr (Some (stamp 10))"
proof -
  have a1: "msg_sender (text_message 10 ''hello'') = Inr (JStr ''Ann'')"
    by (simp add: text_message_def)
  have a2: "should_process_message (timestamp_tracker (fresh_world Write_denied))
              (aware_date (msg_date (text_message 10 ''hello'')))
              (Str_chat (tracking_chat_id ''me'')) = Inr True"
    by (simp add: tracking_chat_id_me fresh_world_accepts)
  have a3: "load_existing_publications (fresh_world Write_denied) = Inr (JList [])"
    by (simp add: load_existing_publications_def fresh_world_def)
  have a3': "store_is_list (fresh_world Write_denied)"
    by (simp add: store_is_list_def a3)
  have a4: "timestamp_write (timestamp_tracker (fresh_world Write_denied)) = Write_ok"
    by (simp add: fresh_world_def)
  have a5: "valid_datetime (msg_date (text_message 10 ''hello''))"
    by (simp add: text_message_def valid_stamp)
  have b: "message_batch quiet_env ''me'' (text_message 10 ''hello'') (JStr ''Ann'') \<noteq> []"
    by (simp add: message_batch_def analysis_records_nonempty [where t = "''hello''"]
        text_message_def strip_hello)
  have d: "aware_date (msg_date (text_message 10 ''hello'')) = stamp 10"
    by (simp add: text_message_def aware_date_def stamp_def)
  have g0: "get_last_check_timestamp (timestamp_tracker (fresh_world Write_denied)) (Str_chat ''me'')
     = Inr None"
    by (simp add: fresh_world_def get_last_check_timestamp_def load_timestamp_data_def dict_get_def)
  have sv: "\<not> snd (save_publications (fresh_world Write_denied)
            (JList (message_batch quiet_env ''me'' (text_message 10 ''hello'') (JStr ''Ann''))))"
    by (simp add: save_publications_def write_json_def fresh_world_def)
  have p: "publications_file (handle_new_message quiet_env ''me'' (fresh_world Write_denied)
       (text_message 10 ''hello'')) = Missing"
    using handle_new_message_publications [OF a1 a2 a3, of quiet_env] b
    by (simp add: write_json_def fresh_world_def)
  have g: "get_last_check_timestamp
     (timestamp_tracker (handle_new_message quiet_env ''me'' (fresh_world Write_denied)
        (text_message 10 ''hello''))) (Str_chat ''me'') = Inr (Some (stamp 10))"
    using handle_new_message_step(1) [OF a1 a2 a3' a4 a5, of quiet_env]
    by (simp add: d tracking_chat_id_me)
  show ?thesis
    using g0 b sv p g by blast
qed

lemma accepted_when_absent:
  assumes "get_last_check_timestamp tr c = Inr None"
  shows "should_process_message tr d c = Inr True"
  using assms should_process_message_eq by blast

lemma accepted_when_later:
  assumes "get_last_check_timestamp tr c = Inr (Some (aware_date T))"
    and "utc_micros T < utc_micros d"
  shows "should_process_message tr (aware_date d) c = Inr True"
proof -
  have "should_process_message tr (aware_date d) c
          = Inr (utc_micros (aware_date d) > utc_micros (aware_date T))"
    using assms(1) should_process_message_eq by blast
  with assms(2) show ?thesis
    by (simp add: utc_micros_aware_date)
qed

lemma backfill_three:
  fixes e :: env and chat :: string and w :: world
  defines "c \<equiv> Str_chat (tracking_chat_id chat)"
  assumes absent: "get_last_check_timestamp (timestamp_tracker w) c = Inr None"
    and wr: "timestamp_write (timestamp_tracker w) = Write_ok"
    and store: "store_is_list w"
    and found: "chat_found e"
    and now: "valid_datetime (utc_now e)"
    and s1: "msg_sender m1 = Inr s1" and s2: "msg_sender m2 = Inr s2"
    and s3: "msg_sender m3 = Inr s3"
    and v1: "valid_datetime (msg_date m1)" and v2: "valid_datetime (msg_date m2)"
    and v3: "valid_datetime (msg_date m3)"
    and lt12: "utc_micros (msg_date m1) < utc_micros (msg_date m2)"
    and lt23: "utc_micros (msg_date m2) < utc_micros (msg_date m3)"
  shows "scan_messages (timestamp_tracker w) c (take 3 [m3, m2, m1]) = Inr [m3, m2, m1]"
    and "get_last_check_timestamp (timestamp_tracker (handle_new_message e chat w m1)) c
           = Inr (Some (aware_date (msg_date m1)))"
    and "get_last_check_timestamp
           (timestamp_tracker (handle_new_message e chat (handle_new_message e chat w m1) m2)) c
           = Inr (Some (aware_date (msg_date m2)))"
    and "get_last_check_timestamp
           (timestamp_tracker (handle_new_message e chat
              (handle_new_message e chat (handle_new_message e chat w m1) m2) m3)) c
           = Inr (Some (aware_date (msg_date m3)))"
    and "\<exists>tr. process_recent_messages e chat w [m3, m2, m1] 3
                 = Inr ((handle_new_message e chat
                          (handle_new_message e chat (handle_new_message e chat w m1) m2) m3)
                        \<lparr>timestamp_tracker := tr\<rparr>) \<and>
               get_last_check_timestamp tr c = Inr (Some (aware_date (utc_now e)))"
proof -
  define w1 where "w1 = handle_new_message e chat w m1"
  define w2 where "w2 = handle_new_message e chat w1 m2"
  define w3 where "w3 = handle_new_message e chat w2 m3"
  have acc: "\<And>d. should_process_message (timestamp_tracker w) d c = Inr True"
    using absent by (rule accepted_when_absent)
  show scan: "scan_messages (timestamp_tracker w) c (take 3 [m3, m2, m1]) = Inr [m3, m2, m1]"
    by (simp add: acc)
  have a1: "should_process_message (timestamp_tracker w) (aware_date (msg_date m1))
              (Str_chat (tracking_chat_id chat)) = Inr True"
    using acc by (simp add: c_def)
  note st1 = handle_new_message_step [OF s1 a1 store wr v1, of e, folded w1_def c_def]
  have a2: "should_process_message (timestamp_tracker w1) (aware_date (msg_date m2))
              (Str_chat (tracking_chat_id chat)) = Inr True"
    using accepted_when_later [OF st1(1) lt12] by (simp add: c_def)
  note st2 = handle_new_message_step [OF s2 a2 st1(2) st1(3) v2, of e, folded w2_def c_def]
  have a3: "should_process_message (timestamp_tracker w2) (aware_date (msg_date m3))
              (Str_chat (tracking_chat_id chat)) = Inr True"
    using accepted_when_later [OF st2(1) lt23] by (simp add: c_def)
  note st3 = handle_new_message_step [OF s3 a3 st2(2) st2(3) v3, of e, folded w3_def c_def]
  show "get_last_check_timestamp (timestamp_tracker (handle_new_message e chat w m1)) c
           = Inr (Some (aware_date (msg_date m1)))"
    using st1(1) by (simp add: w1_def)
  show "get_last_check_timestamp
           (timestamp_tracker (handle_new_message e chat (handle_new_message e chat w m1) m2)) c
           = Inr (Some (aware_date (msg_date m2)))"
    using st2(1) by (simp add: w1_def w2_def)
  show "get_last_check_timestamp
           (timestamp_tracker (handle_new_message e chat
              (handle_new_message e chat (handle_new_message e chat w m1) m2) m3)) c
           = Inr (Some (aware_date (msg_date m3)))"
    using st3(1) by (simp add: w1_def w2_def w3_def)
  obtain data where data: "load_timestamp_data (timestamp_tracker w3) = JDict data"
    using get_ok_loads_dict [OF st3(1)] by blast
  define tr where "tr = save_timestamp_data (timestamp_tracker w3)
                     (JDict (dict_set data (chat_key c) (JStr (isoformat (aware_date (utc_now e))))))"
  have upd: "update_last_check_timestamp (utc_now e) (timestamp_tracker w3) c None = Inr tr"
    unfolding tr_def using data by (rule update_timestamp_now)
  have g: "get_last_check_timestamp tr c = Inr (Some (aware_date (utc_now e)))"
    unfolding tr_def using st3(3) valid_aware_date [OF now] by (rule get_after_save)
  have fold: "foldl (handle_new_message e chat) w (rev [m3, m2, m1]) = w3"
    by (simp add: w1_def w2_def w3_def)
  have "process_recent_messages e chat w [m3, m2, m1] 3 = Inr (w3\<lparr>timestamp_tracker := tr\<rparr>)"
    unfolding process_recent_messages_def Let_def c_def [symmetric]
    by (simp only: absent scan fold upd found sum.case if_False not_True_eq_False simp_thms)
  with g show "\<exists>tr. process_recent_messages e chat w [m3, m2, m1] 3
                 = Inr ((handle_new_message e chat
                          (handle_new_message e chat (handle_new_message e chat w m1) m2) m3)
                        \<lparr>timestamp_tracker := tr\<rparr>) \<and>
               get_last_check_timestamp tr c = Inr (Some (aware_date (utc_now e)))"
    unfolding w1_def w2_def w3_def by blast
qed


lemma aware_date_stamp: "aware_date (stamp s) = stamp s"
  by (simp add: aware_date_def stamp_def)

lemma stamp_neq: "a \<noteq> b \<Longrightarrow> stamp a \<noteq> stamp b"
  by (simp add: stamp_def)

lemma fresh_world_facts:
  "get_last_check_timestamp (timestamp_tracker (fresh_world wo)) (Str_chat (tracking_chat_id ''me''))
     = Inr None"
  "timestamp_write (timestamp_tracker (fresh_world wo)) = Write_ok"
  "store_is_list (fresh_world wo)"
  by (simp_all add: fresh_world_def get_last_check_timestamp_def load_timestamp_data_def
      dict_get_def store_is_list_def load_existing_publications_def)

lemma quiet_env_facts:
  "chat_found quiet_env" "valid_datetime (utc_now quiet_env)" "utc_now quiet_env = stamp 50"
  by (simp_all add: quiet_env_def valid_stamp)

lemma text_message_facts:
  "msg_sender (text_message s t) = Inr (JStr ''Ann'')"
  "msg_date (text_message s t) = stamp s"
  "msg_text (text_message s t) = Some t"
  by (simp_all add: text_message_def)

text \<open>
  Claim C4, as the code has it. The checkpoint of the chat is absent, the chat is found
  and its history holds three messages, the newest first, sent at increasing times (the
  scenario has \<open>t = 10, 20, 30\<close>). The scan with limit 3 collects all three; they are
  handled oldest first, and the checkpoint is the time of the first, then of the second,
  then of the third message. After that \<open>process_recent_messages\<close> sets the checkpoint
  to the current time: the state it returns is the one the third message left, with the
  checkpoint of the chat at \<open>utc_now\<close>.
\<close>

theorem backfill_three_then_checkpoint_now:
  assumes "get_last_check_timestamp (timestamp_tracker w) (Str_chat (tracking_chat_id chat)) = Inr None"
    and "timestamp_write (timestamp_tracker w) = Write_ok"
    and "store_is_list w"
    and "chat_found e"
    and "valid_datetime (utc_now e)"
    and "msg_sender m1 = Inr s1" and "msg_sender m2 = Inr s2" and "msg_sender m3 = Inr s3"
    and "valid_datetime (msg_date m1)" and "valid_datetime (msg_date m2)"
    and "valid_datetime (msg_date m3)"
    and "utc_micros (msg_date m1) < utc_micros (msg_date m2)"
    and "utc_micros (msg_date m2) < utc_micros (msg_date m3)"
  shows "scan_messages (timestamp_tracker w) (Str_chat (tracking_chat_id chat)) (take 3 [m3, m2, m1])
           = Inr [m3, m2, m1] \<and>
         get_last_check_timestamp (timestamp_tracker (handle_new_message e chat w m1))
           (Str_chat (tracking_chat_id chat)) = Inr (Some (aware_date (msg_date m1))) \<and>
         get_last_check_timestamp
           (timestamp_tracker (handle_new_message e chat (handle_new_message e chat w m1) m2))
           (Str_chat (tracking_chat_id chat)) = Inr (Some (aware_date (msg_date m2))) \<and>
         get_last_check_timestamp
           (timestamp_tracker (handle_new_message e chat
              (handle_new_message e chat (handle_new_message e chat w m1) m2) m3))
           (Str_chat (tracking_chat_id chat)) = Inr (Some (aware_date (msg_date m3))) \<and>
         (case process_recent_messages e chat w [m3, m2, m1] 3 of
            Inl err \<Rightarrow> False
          | Inr final \<Rightarrow>
              publications_file final
                = publications_file (handle_new_message e chat
                    (handle_new_message e chat (handle_new_message e chat w m1) m2) m3) \<and>
              get_last_check_timestamp (timestamp_tracker final) (Str_chat (tracking_chat_id chat))
                = Inr (Some (aware_date (utc_now e))))"
proof -
  note b = backfill_three [OF assms]
  obtain tr where tr: "process_recent_messages e chat w [m3, m2, m1] 3
                 = Inr ((handle_new_message e chat
                          (handle_new_message e chat (handle_new_message e chat w m1) m2) m3)
                        \<lparr>timestamp_tracker := tr\<rparr>)"
     and g: "get_last_check_timestamp tr (Str_chat (tracking_chat_id chat))
               = Inr (Some (aware_date (utc_now e)))"
    using b(5) by blast
  show ?thesis
    using b(1,2,3,4) g by (simp add: tr)
qed

theorem backfill_three_then_checkpoint_now_witness:
  "scan_messages (timestamp_tracker (fresh_world Write_ok)) (Str_chat ''me'')
     (take 3 [text_message 30 ''c'', text_message 20 ''b'', text_message 10 ''a''])
     = Inr [text_message 30 ''c'', text_message 20 ''b'', text_message 10 ''a''] \<and>
   get_last_check_timestamp
     (timestamp_tracker (handle_new_message quiet_env ''me''
        (handle_new_message quiet_env ''me''
           (handle_new_message quiet_env ''me'' (fresh_world Write_ok) (text_message 10 ''a''))
           (text_message 20 ''b''))
        (text_message 30 ''c''))) (Str_chat ''me'') = Inr (Some (stamp 30)) \<and>
   (case process_recent_messages quiet_env ''me'' (fresh_world Write_ok)
           [text_message 30 ''c'', text_message 20 ''b'', text_message 10 ''a''] 3 of
      Inl err \<Rightarrow> False
    | Inr final \<Rightarrow>
        get_last_check_timestamp (timestamp_tracker final) (Str_chat ''me'')
          = Inr (Some (stamp 50)))"
proof -
  have lt: "utc_micros (msg_date (text_message 10 ''a'')) < utc_micros (msg_date (text_message 20 ''b''))"
    "utc_micros (msg_date (text_message 20 ''b'')) < utc_micros (msg_date (text_message 30 ''c''))"
    by (simp_all add: text_message_facts utc_micros_stamp)
  have v: "valid_datetime (msg_date (text_message 10 ''a''))"
    "valid_datetime (msg_date (text_message 20 ''b''))"
    "valid_datetime (msg_date (text_message 30 ''c''))"
    by (simp_all add: text_message_facts valid_stamp)
  show ?thesis
    using backfill_three_then_checkpoint_now
      [OF fresh_world_facts(1,2,3) [where wo = Write_ok] quiet_env_facts(1,2)
          text_message_facts(1) text_message_facts(1) text_message_facts(1) v lt]
    by (simp add: tracking_chat_id_me text_message_facts aware_date_stamp quiet_env_facts
        split: sum.splits)
qed

theorem backfill_final_checkpoint_is_not_last_message:
  "(case process_recent_messages quiet_env ''me'' (fresh_world Write_ok)
           [text_message 30 ''c'', text_message 20 ''b'', text_message 10 ''a''] 3 of
      Inl err \<Rightarrow> False
    | Inr final \<Rightarrow>
        get_last_check_timestamp (timestamp_tracker final) (Str_chat ''me'')
          = Inr (Some (stamp 50)) \<and>
        get_last_check_timestamp (timestamp_tracker final) (Str_chat ''me'')
          \<noteq> Inr (Some (stamp 30)))"
proof -
  have lt: "utc_micros (msg_date (text_message 10 ''a'')) < utc_micros (msg_date (text_message 20 ''b''))"
    "utc_micros (msg_date (text_message 20 ''b'')) < utc_micros (msg_date (text_message 30 ''c''))"
    by (simp_all add: text_message_facts utc_micros_stamp)
  have v: "valid_datetime (msg_date (text_message 10 ''a''))"
    "valid_datetime (msg_date (text_message 20 ''b''))"
    "valid_datetime (msg_date (text_message 30 ''c''))"
    by (simp_all add: text_message_facts valid_stamp)
  have ne: "stamp 50 \<noteq> stamp 30"
    by (rule stamp_neq) simp
  obtain tr where "process_recent_messages quiet_env ''me'' (fresh_world Write_ok)
           [text_message 30 ''c'', text_message 20 ''b'', text_message 10 ''a''] 3
       = Inr ((handle_new_message quiet_env ''me''
        (handle_new_message quiet_env ''me''
           (handle_new_message quiet_env ''me'' (fresh_world Write_ok) (text_message 10 ''a''))
           (text_message 20 ''b''))
        (text_message 30 ''c''))\<lparr>timestamp_tracker := tr\<rparr>)"
    and "get_last_check_timestamp tr (Str_chat (tracking_chat_id ''me''))
           = Inr (Some (aware_date (utc_now quiet_env)))"
    using backfill_three(5)
      [OF fresh_world_facts(1,2,3) [where wo = Write_ok] quiet_env_facts(1,2)
          text_message_facts(1) text_message_facts(1) text_message_facts(1) v lt]
    by blast
  then show ?thesis
    using ne by (simp add: tracking_chat_id_me aware_date_stamp quiet_env_facts)
qed

lemma summarize_message_unavailable:
  assumes "\<not> is_available p"
  shows "fallback_fields (summarize_message p r t s) t"
    and "dict_get (summarize_message p r t s) ''message_type'' = None"
  using assms
  by (simp_all add: summarize_message_def fallback_fields_def dict_get_def short_summary_def)

lemma summarize_message_fallback_other:
  assumes "is_available p" and "strip t \<noteq> []" and "no_object (call_llm p r)"
  shows "summarize_message p r t s =
           [(''summary'', JStr (short_summary t)),
            (''sentiment'', JStr ''neutral''),
            (''topics'', JList []),
            (''importance'', JStr ''medium''),
            (''message_type'', JStr ''other''),
            (''key_words'', JList []),
            (''enhanced_by_llm'', JBool False),
            (''original_message'', JStr t),
            (''sender'', s)]"
proof (cases "call_llm p r")
  case Llm_empty
  with assms show ?thesis by (simp add: summarize_message_def)
next
  case Llm_not_json
  with assms show ?thesis by (simp add: summarize_message_def)
next
  case (Llm_json j)
  with assms show ?thesis
    by (cases j) (simp_all add: summarize_message_def no_object_def)
qed

lemma summarize_message_no_object:
  assumes "is_available p" and "strip t \<noteq> []" and "no_object (call_llm p r)"
  shows "fallback_fields (summarize_message p r t s) t"
    and "dict_get (summarize_message p r t s) ''message_type'' = Some (JStr ''other'')"
  unfolding summarize_message_fallback_other [OF assms]
  by (simp_all add: fallback_fields_def dict_get_def short_summary_def)

lemma process_message_content_unavailable:
  assumes "\<not> is_available (llm_processor e)" and "strip t \<noteq> []"
  shows "\<exists>a. process_message_content e t s = Some a \<and> fallback_fields a t \<and>
             dict_get a ''message_type'' = Some (JStr ''text'')"
  using assms
  by (simp add: process_message_content_def fallback_fields_def dict_get_def short_summary_def)

text \<open>
  Claim C5, as the code has it. A message whose trimmed text is not empty is always
  classified. When no enrichment service is available, or the call fails, or the reply is
  no JSON object, the record is a fallback with the summary \<open>text[:100] + "..."\<close> for a
  text longer than 100 characters and the text itself otherwise, a neutral sentiment, no
  topics, medium importance and the enhanced flag false. Its \<open>message_type\<close> is
  \<open>text\<close> when \<open>process_message_content\<close> finds no service available and
  \<open>other\<close> when the service is available and gave no JSON object;
  \<open>summarize_message\<close> called with no service available returns the fallback without
  a \<open>message_type\<close>.
\<close>

theorem classifier_fallback:
  assumes "strip t \<noteq> []"
  shows "(\<not> is_available (llm_processor e) \<longrightarrow>
            (case process_message_content e t s of
               None \<Rightarrow> False
             | Some a \<Rightarrow> fallback_fields a t \<and> dict_get a ''message_type'' = Some (JStr ''text''))) \<and>
         (is_available (llm_processor e) \<and>
          no_object (call_llm (llm_processor e) (message_reply e t)) \<longrightarrow>
            (case process_message_content e t s of
               None \<Rightarrow> False
             | Some a \<Rightarrow> fallback_fields a t \<and> dict_get a ''message_type'' = Some (JStr ''other''))) \<and>
         (\<not> is_available p \<longrightarrow>
            fallback_fields (summarize_message p r t s) t \<and>
            dict_get (summarize_message p r t s) ''message_type'' = None) \<and>
         (is_available p \<and> no_object (call_llm p r) \<longrightarrow>
            fallback_fields (summarize_message p r t s) t \<and>
            dict_get (summarize_message p r t s) ''message_type'' = Some (JStr ''other''))"
proof (intro conjI impI)
  assume "\<not> is_available (llm_processor e)"
  then show "case process_message_content e t s of
               None \<Rightarrow> False
             | Some a \<Rightarrow> fallback_fields a t \<and> dict_get a ''message_type'' = Some (JStr ''text'')"
    using process_message_content_unavailable [OF _ assms, of e s] by auto
next
  assume a: "is_available (llm_processor e) \<and>
          no_object (call_llm (llm_processor e) (message_reply e t))"
  then have "process_message_content e t s
               = Some (summarize_message (llm_processor e) (message_reply e t) t s)"
    using assms by (simp add: process_message_content_def)
  then show "case process_message_content e t s of
               None \<Rightarrow> False
             | Some a \<Rightarrow> fallback_fields a t \<and> dict_get a ''message_type'' = Some (JStr ''other'')"
    using a summarize_message_no_object [OF _ assms, of "llm_processor e" "message_reply e t" s]
    by simp
next
  assume "\<not> is_available p"
  then show "fallback_fields (summarize_message p r t s) t"
    and "dict_get (summarize_message p r t s) ''message_type'' = None"
    by (rule summarize_message_unavailable)+
next
  assume "is_available p \<and> no_object (call_llm p r)"
  then show "fallback_fields (summarize_message p r t s) t"
    and "dict_get (summarize_message p r t s) ''message_type'' = Some (JStr ''other'')"
    using summarize_message_no_object [OF _ assms, of p r s] by simp_all
qed

lemma quiet_env_unavailable: "\<not> is_available (llm_processor quiet_env)"
  by (simp add: quiet_env_def is_available_def)

lemma enriching_env_available:
  "is_available (llm_processor enriching_env)"
  "no_object (call_llm (llm_processor enriching_env) (message_reply enriching_env t))"
  by (simp_all add: enriching_env_def is_available_def key_truthy_def call_llm_def no_object_def)

theorem classifier_fallback_witness:
  "(case process_message_content quiet_env ''hello'' (JStr ''Ann'') of
      None \<Rightarrow> False
    | Some a \<Rightarrow>
        dict_get a ''summary'' = Some (JStr ''hello'') \<and>
        dict_get a ''enhanced_by_llm'' = Some (JBool False) \<and>
        dict_get a ''message_type'' = Some (JStr ''text'')) \<and>
   (case process_message_content enriching_env ''hello'' (JStr ''Ann'') of
      None \<Rightarrow> False
    | Some a \<Rightarrow>
        dict_get a ''summary'' = Some (JStr ''hello'') \<and>
        dict_get a ''enhanced_by_llm'' = Some (JBool False) \<and>
        dict_get a ''message_type'' = Some (JStr ''other''))"
proof -
  have s: "strip ''hello'' \<noteq> []"
    by (simp add: strip_hello)
  have 1: "case process_message_content quiet_env ''hello'' (JStr ''Ann'') of
             None \<Rightarrow> False
           | Some a \<Rightarrow> fallback_fields a ''hello'' \<and> dict_get a ''message_type'' = Some (JStr ''text'')"
    using classifier_fallback [OF s, where e = quiet_env and s = "JStr ''Ann''"
        and p = "llm_processor quiet_env" and r = Llm_empty] quiet_env_unavailable
    by blast
  have 2: "case process_message_content enriching_env ''hello'' (JStr ''Ann'') of
             None \<Rightarrow> False
           | Some a \<Rightarrow> fallback_fields a ''hello'' \<and> dict_get a ''message_type'' = Some (JStr ''other'')"
    using classifier_fallback [OF s, where e = enriching_env and s = "JStr ''Ann''"
        and p = "llm_processor quiet_env" and r = Llm_empty]
      enriching_env_available(1) enriching_env_available(2) [of "''hello''"]
    by blast
  show ?thesis
    using 1 2 by (auto simp: fallback_fields_def split: option.splits)
qed

theorem unavailable_service_gives_message_type_text:
  "\<not> is_available (llm_processor quiet_env) \<and> strip ''hello'' \<noteq> [] \<and>
   (case process_message_content quiet_env ''hello'' (JStr ''Ann'') of
      None \<Rightarrow> False
    | Some a \<Rightarrow>
        dict_get a ''message_type'' = Some (JStr ''text'') \<and>
        dict_get a ''message_type'' \<noteq> Some (JStr ''other''))"
proof -
  have s: "strip ''hello'' \<noteq> []"
    by (simp add: strip_hello)
  obtain a where "process_message_content quiet_env ''hello'' (JStr ''Ann'') = Some a"
    and "dict_get a ''message_type'' = Some (JStr ''text'')"
    using process_message_content_unavailable [OF quiet_env_unavailable s] by blast
  then show ?thesis
    using quiet_env_unavailable s by simp
qed

section \<open>Facts about the resolvers\<close>

lemma dict_update_nonempty: "kvs \<noteq> [] \<Longrightarrow> dict_update d kvs \<noteq> []"
proof (induction kvs arbitrary: d rule: rev_induct)
  case Nil
  then show ?case by simp
next
  case (snoc kv kvs)
  then show ?case
    by (cases kv) (simp add: dict_update_def)
qed

lemma enhance_article_extraction_nonempty: "enhance_article_extraction p r d \<noteq> []"
  by (simp add: enhance_article_extraction_def merge_enhanced_def dict_update_nonempty
      split: llm_response.splits json.splits)

lemma error_article_nonempty: "error_article e url msg \<noteq> []"
  by (simp add: error_article_def)

lemma extract_article_content_nonempty: "extract_article_content e url \<noteq> []"
  by (cases "fetch e url")
     (simp_all add: extract_article_content_def Let_def enhance_article_extraction_nonempty
        error_article_nonempty)

lemma process_urls_map:
  "process_urls e s urls = map (\<lambda>url. dict_set (extract_article_content e url) ''sender'' s) urls"
  by (induction urls) (simp_all add: Let_def extract_article_content_nonempty)

lemma process_urls_in_message_map:
  "process_urls_in_message e t s
     = map (\<lambda>url. dict_set (extract_article_content e url) ''sender'' s) (extract_urls_from_text t)"
  by (simp add: process_urls_in_message_def process_urls_map)

lemma extract_article_content_failed:
  assumes "fetch e url = Request_failed msg \<or> fetch e url = Extraction_failed msg"
  shows "extract_article_content e url = error_article e url msg"
  using assms by (auto simp: extract_article_content_def)

lemma extract_article_data_failed:
  assumes "fetch e url = Request_failed msg \<or> fetch e url = Extraction_failed msg"
  shows "extract_article_data e url = fallback_article e url"
  using assms by (auto simp: extract_article_data_def)

lemma saved_batch:
  assumes "msg_sender m = Inr s"
    and "should_process_message (timestamp_tracker w) (aware_date (msg_date m))
           (Str_chat (tracking_chat_id chat)) = Inr True"
    and "load_existing_publications w = Inr (JList xs)"
    and "publications_write w = Write_ok"
    and "message_batch e chat m s \<noteq> []"
  shows "publications_file (handle_new_message e chat w m)
           = Holds (JList (xs @ message_batch e chat m s))"
  using handle_new_message_publications [OF assms(1,2,3), of e] assms(4,5)
  by (simp add: write_json_def)

text \<open>
  Claim C6, as the code has it. Neither resolver raises: when the fetch or the extraction
  raises, each returns a placeholder record. The placeholder of \<open>extract_article_data\<close>
  (\<open>agent.py\<close>) has the title \<open>Could not extract title\<close> and no field for an
  extraction outcome. The placeholder of \<open>extract_article_content\<close>
  (\<open>agent_enhanced.py\<close>) has \<open>extraction_method = error\<close> and the title
  \<open>Failed to extract: \<close> followed by the URL; the coordinator keeps it: for every
  occurrence of the URL in an accepted message the placeholder, with the sender, is in
  the list that is written to the publication file.
\<close>

theorem failed_fetch_gives_placeholder:
  assumes "fetch e url = Request_failed msg \<or> fetch e url = Extraction_failed msg"
  shows "extract_article_data e url = fallback_article e url \<and>
         dict_get (extract_article_data e url) ''title'' = Some (JStr ''Could not extract title'') \<and>
         dict_get (extract_article_data e url) ''url'' = Some (JStr url) \<and>
         dict_get (extract_article_data e url) ''extraction_method'' = None \<and>
         extract_article_content e url = error_article e url msg \<and>
         dict_get (extract_article_content e url) ''title'' = Some (JStr (''Failed to extract: '' @ url)) \<and>
         dict_get (extract_article_content e url) ''url'' = Some (JStr url) \<and>
         dict_get (extract_article_content e url) ''extraction_method'' = Some (JStr ''error'') \<and>
         (msg_sender m = Inr s \<and> msg_text m = Some t \<and> url \<in> set (extract_urls_from_text t) \<and>
          should_process_message (timestamp_tracker w) (aware_date (msg_date m))
            (Str_chat (tracking_chat_id chat)) = Inr True \<and>
          load_existing_publications w = Inr (JList xs) \<and> publications_write w = Write_ok \<longrightarrow>
            (case publications_file (handle_new_message e chat w m) of
               Holds (JList ys) \<Rightarrow> JDict (dict_set (error_article e url msg) ''sender'' s) \<in> set ys
             | _ \<Rightarrow> False))"
proof -
  have c: "extract_article_content e url = error_article e url msg"
    using assms by (rule extract_article_content_failed)
  have d: "extract_article_data e url = fallback_article e url"
    using assms by (rule extract_article_data_failed)
  have stored: "case publications_file (handle_new_message e chat w m) of
               Holds (JList ys) \<Rightarrow> JDict (dict_set (error_article e url msg) ''sender'' s) \<in> set ys
             | _ \<Rightarrow> False"
    if h: "msg_sender m = Inr s \<and> msg_text m = Some t \<and> url \<in> set (extract_urls_from_text t) \<and>
          should_process_message (timestamp_tracker w) (aware_date (msg_date m))
            (Str_chat (tracking_chat_id chat)) = Inr True \<and>
          load_existing_publications w = Inr (JList xs) \<and> publications_write w = Write_ok"
  proof -
    have "dict_set (error_article e url msg) ''sender'' s \<in> set (process_urls_in_message e t s)"
      using h c by (force simp: process_urls_in_message_map)
    then have mem: "JDict (dict_set (error_article e url msg) ''sender'' s)
                 \<in> set (message_batch e chat m s)"
      using h by (simp add: message_batch_def)
    then have ne: "message_batch e chat m s \<noteq> []"
      by auto
    have "publications_file (handle_new_message e chat w m)
            = Holds (JList (xs @ message_batch e chat m s))"
      using h ne by (intro saved_batch) simp_all
    with mem show ?thesis by simp
  qed
  show ?thesis
    using stored
    by (simp add: c d error_article_def fallback_article_def dict_get_def)
qed

theorem failed_fetch_gives_placeholder_witness:
  "dict_get (extract_article_data quiet_env ''http://a.example/x'') ''title''
     = Some (JStr ''Could not extract title'') \<and>
   dict_get (extract_article_content quiet_env ''http://a.example/x'') ''extraction_method''
     = Some (JStr ''error'') \<and>
   (case publications_file (handle_new_message quiet_env ''me'' (fresh_world Write_ok)
            (text_message 10 ''see http://a.example/x'')) of
      Holds (JList ys) \<Rightarrow>
        JDict (dict_set (error_article quiet_env ''http://a.example/x'' ''timed out'')
                 ''sender'' (JStr ''Ann'')) \<in> set ys
    | _ \<Rightarrow> False)"
proof -
  have f: "fetch quiet_env ''http://a.example/x'' = Request_failed ''timed out'' \<or>
           fetch quiet_env ''http://a.example/x'' = Extraction_failed ''timed out''"
    by (simp add: quiet_env_def)
  have u: "''http://a.example/x'' \<in> set (extract_urls_from_text ''see http://a.example/x'')"
    by (simp add: extract_urls_from_text_def match_url_def match_path_def opened_run_def
        is_host_char_def is_port_char_def is_path_char_def is_query_char_def
        is_fragment_char_def is_word_def)
  have a: "should_process_message (timestamp_tracker (fresh_world Write_ok))
             (aware_date (msg_date (text_message 10 ''see http://a.example/x'')))
             (Str_chat (tracking_chat_id ''me'')) = Inr True"
    by (simp add: tracking_chat_id_me fresh_world_accepts)
  have l: "load_existing_publications (fresh_world Write_ok) = Inr (JList [])"
    "publications_write (fresh_world Write_ok) = Write_ok"
    by (simp_all add: load_existing_publications_def fresh_world_def)
  have p: "msg_sender (text_message 10 ''see http://a.example/x'') = Inr (JStr ''Ann'') \<and>
           msg_text (text_message 10 ''see http://a.example/x'') = Some ''see http://a.example/x'' \<and>
           ''http://a.example/x'' \<in> set (extract_urls_from_text ''see http://a.example/x'') \<and>
           should_process_message (timestamp_tracker (fresh_world Write_ok))
             (aware_date (msg_date (text_message 10 ''see http://a.example/x'')))
             (Str_chat (tracking_chat_id ''me'')) = Inr True \<and>
           load_existing_publications (fresh_world Write_ok) = Inr (JList []) \<and>
           publications_write (fresh_world Write_ok) = Write_ok"
    using u a l by (simp add: text_message_facts)
  show ?thesis
    using failed_fetch_gives_placeholder [OF f, where m = "text_message 10 ''see http://a.example/x''"
        and s = "JStr ''Ann''" and t = "''see http://a.example/x''" and w = "fresh_world Write_ok"
        and chat = "''me''" and xs = "[]"] p
    by blast
qed

theorem failed_fetch_title_in_agent_enhanced:
  "fetch quiet_env ''http://a.example/x'' = Request_failed ''timed out'' \<and>
   dict_get (extract_article_content quiet_env ''http://a.example/x'') ''title''
     = Some (JStr ''Failed to extract: http://a.example/x'') \<and>
   dict_get (extract_article_content quiet_env ''http://a.example/x'') ''title''
     \<noteq> Some (JStr ''Could not extract title'')"
proof -
  have f: "fetch quiet_env ''http://a.example/x'' = Request_failed ''timed out''"
    by (simp add: quiet_env_def)
  then have "extract_article_content quiet_env ''http://a.example/x''
               = error_article quiet_env ''http://a.example/x'' ''timed out''"
    by (simp add: extract_article_content_failed)
  then show ?thesis
    using f by (simp add: error_article_def dict_get_def)
qed













lemma extract_urls_twice:
  "extract_urls_from_text ''check this out http://a.example/x and http://a.example/x''
     = [''http://a.example/x'', ''http://a.example/x'']"
  by (simp add: extract_urls_from_text_def match_url_def match_path_def opened_run_def
      is_host_char_def is_port_char_def is_path_char_def is_query_char_def
      is_fragment_char_def is_word_def)

lemma strip_not_empty: "t \<noteq> [] \<Longrightarrow> \<not> is_space (hd t) \<Longrightarrow> strip t \<noteq> []"
  by (cases t) (simp_all add: strip_def)

text \<open>
  Claim C3, on the code of \<open>agent_enhanced.py\<close>. The message
  \<open>check this out http://a.example/x and http://a.example/x\<close> arrives on an empty
  store. The extractor returns the URL twice, \<open>process_urls_in_message\<close> resolves
  each occurrence, and the publication file ends with two records that bear the URL.
\<close>

theorem same_url_twice_gives_two_records:
  "extract_urls_from_text ''check this out http://a.example/x and http://a.example/x''
     = [''http://a.example/x'', ''http://a.example/x''] \<and>
   length (process_urls_in_message quiet_env
             ''check this out http://a.example/x and http://a.example/x'' (JStr ''Ann'')) = 2 \<and>
   (case publications_file
           (handle_new_message quiet_env ''me'' (fresh_world Write_ok)
              (text_message 10 ''check this out http://a.example/x and http://a.example/x'')) of
      Holds (JList ys) \<Rightarrow> records_with_url ''http://a.example/x'' ys = 2
    | _ \<Rightarrow> False)"
proof -
  let ?t = "''check this out http://a.example/x and http://a.example/x''"
  let ?m = "text_message 10 ?t"
  have a: "should_process_message (timestamp_tracker (fresh_world Write_ok))
             (aware_date (msg_date ?m)) (Str_chat (tracking_chat_id ''me'')) = Inr True"
    by (simp add: tracking_chat_id_me fresh_world_accepts)
  have l: "load_existing_publications (fresh_world Write_ok) = Inr (JList [])"
    "publications_write (fresh_world Write_ok) = Write_ok"
    by (simp_all add: load_existing_publications_def fresh_world_def)
  have arts: "process_urls_in_message quiet_env ?t (JStr ''Ann'')
                = [dict_set (error_article quiet_env ''http://a.example/x'' ''timed out'')
                     ''sender'' (JStr ''Ann''),
                   dict_set (error_article quiet_env ''http://a.example/x'' ''timed out'')
                     ''sender'' (JStr ''Ann'')]"
    by (simp add: process_urls_in_message_map extract_urls_twice extract_article_content_def
        quiet_env_def)
  have st: "strip ?t \<noteq> []"
    by (rule strip_not_empty) (simp_all add: is_space_def)
  have ana: "analysis_records quiet_env ''me'' ?m (JStr ''Ann'')
               = [JDict (dict_set (dict_set
                    [(''summary'', JStr (short_summary ?t)),
                     (''sentiment'', JStr ''neutral''),
                     (''topics'', JList []),
                     (''importance'', JStr ''medium''),
                     (''message_type'', JStr ''text''),
                     (''enhanced_by_llm'', JBool False),
                     (''original_message'', JStr ?t),
                     (''sender'', JStr ''Ann''),
                     (''analyzed_at'', JStr (isoformat (utc_now quiet_env)))]
                    ''message_date'' (JStr (isoformat (aware_date (msg_date ?m)))))
                    ''chat_id'' (JStr (tracking_chat_id ''me'')))]"
    using st quiet_env_unavailable
    by (simp add: analysis_records_def text_message_facts process_message_content_def)
  have batch: "message_batch quiet_env ''me'' ?m (JStr ''Ann'')
                 = map JDict (process_urls_in_message quiet_env ?t (JStr ''Ann''))
                   @ analysis_records quiet_env ''me'' ?m (JStr ''Ann'')"
    by (simp add: message_batch_def text_message_facts)
  have ne: "message_batch quiet_env ''me'' ?m (JStr ''Ann'') \<noteq> []"
    by (simp add: batch arts)
  have saved: "publications_file (handle_new_message quiet_env ''me'' (fresh_world Write_ok) ?m)
                = Holds (JList ([] @ message_batch quiet_env ''me'' ?m (JStr ''Ann'')))"
    using text_message_facts(1) a l ne by (rule saved_batch)
  have count: "records_with_url ''http://a.example/x''
                 (message_batch quiet_env ''me'' ?m (JStr ''Ann'')) = 2"
    unfolding batch arts ana
    by (simp add: records_with_url_def error_article_def dict_get_def)
  show ?thesis
    using extract_urls_twice count by (simp add: saved arts)
qed

text \<open>
  For comparison: \<open>extract_article_content\<close> (\<open>agent_enhanced.py\<close>) does not cut
  the title; a heading of 300 characters is the title of the record.
\<close>

lemma extract_article_content_keeps_long_title:
  "dict_get
     (extract_article_content
        (quiet_env\<lparr>fetch := (\<lambda>url. Fetched (blank_page\<lparr>select_one :=
           (\<lambda>sel. if sel = ''h1''
                  then Some \<lparr>el_name = ''h1'', el_content = None, el_src = None,
                             el_text = replicate 300 CHR ''b'',
                             el_text_stripped = replicate 300 CHR ''b''\<rparr>
                  else None)\<rparr>))\<rparr>)
        ''http://a.example/x'') ''title''
     = Some (JStr (replicate 300 CHR ''b''))"
  by (simp add: extract_article_content_def Let_def title_selectors_def author_selectors_def
      image_selectors_def quoted_def blank_page_def quiet_env_def is_available_def
      or_default_def dict_get_dict_set_other)
     (simp add: dict_get_def)

end
